theory Spec2Isabelle
  imports Main
begin

section \<open>The quiz model read by the QTI 2.1 generator\<close>

text \<open>
  The generator \<^verbatim>\<open>assessment_v2\<close> of \<^verbatim>\<open>qtimaker/xml_assessment_v2.py\<close> reads a
  \<^verbatim>\<open>Quiz\<close> whose classes live in \<^verbatim>\<open>qtimaker/quiz.py\<close>. Only the attributes the
  generator reads are modelled, one record per class; a field \<^verbatim>\<open>x.attr\<close> of class
  \<^verbatim>\<open>Question\<close>, \<^verbatim>\<open>Choice\<close>, \<^verbatim>\<open>Group\<close>, \<^verbatim>\<open>TextRegion\<close> is written \<open>q_attr\<close>,
  \<open>c_attr\<close>, \<open>g_attr\<close>, \<open>t_attr\<close>. Identifiers and all \<^verbatim>\<open>*_xml\<close> attributes are
  strings, numbers (points, pick counts, the exact value of a numerical question) are
  Python integers, an attribute that the code tests against \<^verbatim>\<open>None\<close> is an option.
\<close>

record choice =
  c_id :: string
  c_correct :: bool
  c_choice_xml :: string
  c_choice_html_xml :: string

record question =
  q_id :: string
  q_type :: string
  q_title_xml :: string
  q_question_html_xml :: string
  q_points_possible :: int
  q_choices :: "choice list"
  q_numerical_exact :: "int option"
  q_numerical_exact_html_xml :: string
  q_numerical_min_html_xml :: string
  q_numerical_max_html_xml :: string
  q_correct_feedback_raw :: "string option"
  q_correct_feedback_html_xml :: string
  q_incorrect_feedback_raw :: "string option"
  q_incorrect_feedback_html_xml :: string
  q_feedback_raw :: "string option"
  q_feedback_html_xml :: string

record group =
  g_id :: string
  g_title_xml :: string
  g_pick :: int
  g_points_per_question :: int

record text_region =
  t_id :: string
  t_title_xml :: string
  t_text_html_xml :: string

text \<open>
  An entry of \<^verbatim>\<open>quiz.questions_and_delims\<close>. \<open>Other\<close> stands for an object of any
  other class, for which the main loop raises \<^verbatim>\<open>TypeError\<close>.
\<close>

datatype entry =
    Question question
  | GroupStart group
  | GroupEnd
  | TextRegion text_region
  | Other

record quiz =
  questions_and_delims :: "entry list"
  shuffle_answers_xml :: string

datatype error = TypeError | ValueError

section \<open>String helpers of the host language\<close>

text \<open>\<^verbatim>\<open>sep.join(xs)\<close>.\<close>

fun join :: "string \<Rightarrow> string list \<Rightarrow> string" where
  "join sep [] = []"
| "join sep [x] = x"
| "join sep (x # y # ys) = x @ sep @ join sep (y # ys)"

text \<open>\<^verbatim>\<open>str(n)\<close> for an integer \<open>n\<close>, as \<^verbatim>\<open>str.format\<close> and f-strings render it.\<close>

fun str_nat :: "nat \<Rightarrow> string" where
  "str_nat n =
     (if n < 10 then [''0123456789'' ! n]
      else str_nat (n div 10) @ [''0123456789'' ! (n mod 10)])"

declare str_nat.simps [simp del]

definition str_int :: "int \<Rightarrow> string" where
  "str_int i = (if i < 0 then ''-'' @ str_nat (nat (- i)) else str_nat (nat i))"

section \<open>The templates\<close>

text \<open>
  Each module-level template is a function of its placeholders, in order of first
  occurrence; \<^verbatim>\<open>T.format(a=x, ...)\<close> is the application of that function. The
  templates \<^verbatim>\<open>TEXT\<close> and \<^verbatim>\<open>FEEDBACK_CHOICE\<close> are never used by the generator and are
  left out.
\<close>

definition BEFORE_ITEMS :: "string \<Rightarrow> string \<Rightarrow> string" where
  \<open>BEFORE_ITEMS assessment_identifier title =
     ''<?xml version="1.0" encoding="UTF-8"?>\<newline>'' @
     ''<assessmentTest xmlns="http://www.imsglobal.org/xsd/imsqti_v2p1" xmlns:xsi="http://www.w3.org/2001/XMLSchema-instance" xsi:schemaLocation="http://www.imsglobal.org/xsd/imsqti_v2p1 http://www.imsglobal.org/xsd/imsqti_v2p1.xsd" identifier="'' @ assessment_identifier @ ''" title="'' @ title @ ''">\<newline>'' @
     ''  <testPart identifier="testpart1" navigationMode="nonlinear" submissionMode="individual">\<newline>'' @
     ''    <assessmentSection identifier="root_section" title="'' @ title @ ''">\<newline>''\<close>

definition AFTER_ITEMS :: "string \<Rightarrow> string" where
  \<open>AFTER_ITEMS points_possible =
     ''    </assessmentSection>\<newline>'' @
     ''  </testPart>\<newline>'' @
     ''  <outcomeDeclaration identifier="SCORE" baseType="float" cardinality="single"/>\<newline>'' @
     ''  <outcomeDeclaration identifier="MAXSCORE" baseType="float" cardinality="single">\<newline>'' @
     ''    <defaultValue>\<newline>'' @
     ''      <value>'' @ points_possible @ ''</value>\<newline>'' @
     ''    </defaultValue>\<newline>'' @
     ''  </outcomeDeclaration>\<newline>'' @
     ''</assessmentTest>\<newline>''\<close>

definition GROUP_START :: "string \<Rightarrow> string \<Rightarrow> string \<Rightarrow> string \<Rightarrow> string" where
  \<open>GROUP_START ident group_title pick points_per_item =
     ''      <assessmentSection identifier="'' @ ident @ ''" title="'' @ group_title @ ''">\<newline>'' @
     ''        <selection>\<newline>'' @
     ''          <selectionNumber>'' @ pick @ ''</selectionNumber>\<newline>'' @
     ''        </selection>\<newline>'' @
     ''        <rubricBlock identifier="points_per_item" view="author">\<newline>'' @
     ''          <p>Points per item: '' @ points_per_item @ ''</p>\<newline>'' @
     ''        </rubricBlock>\<newline>''\<close>

definition GROUP_END :: "string" where
  \<open>GROUP_END =
     ''      </assessmentSection>\<newline>''\<close>

definition START_ITEM :: "string \<Rightarrow> string \<Rightarrow> string" where
  \<open>START_ITEM question_identifier question_title =
     ''      <assessmentItem identifier="'' @ question_identifier @ ''" title="'' @ question_title @ ''" adaptive="false" timeDependent="false">\<newline>''\<close>

definition END_ITEM :: "string" where
  \<open>END_ITEM =
     ''      </assessmentItem>\<newline>''\<close>

definition ITEM_METADATA :: "string \<Rightarrow> string \<Rightarrow> string \<Rightarrow> string \<Rightarrow> string" where
  \<open>ITEM_METADATA base_type cardinality response_declaration_body points_possible =
     ''        <responseDeclaration identifier="RESPONSE" baseType="'' @ base_type @ ''" cardinality="'' @ cardinality @ ''">\<newline>'' @
     response_declaration_body @ ''\<newline>'' @
     ''        </responseDeclaration>\<newline>'' @
     ''        <outcomeDeclaration identifier="SCORE" baseType="float" cardinality="single">\<newline>'' @
     ''          <defaultValue>\<newline>'' @
     ''            <value>0</value>\<newline>'' @
     ''          </defaultValue>\<newline>'' @
     ''        </outcomeDeclaration>\<newline>'' @
     ''        <outcomeDeclaration identifier="MAXSCORE" baseType="float" cardinality="single">\<newline>'' @
     ''          <defaultValue>\<newline>'' @
     ''            <value>'' @ points_possible @ ''</value>\<newline>'' @
     ''          </defaultValue>\<newline>'' @
     ''        </outcomeDeclaration>\<newline>''\<close>

definition ITEM_BODY_MCTF :: "string \<Rightarrow> string \<Rightarrow> string \<Rightarrow> string" where
  \<open>ITEM_BODY_MCTF question_html_xml shuffle choices =
     ''        <itemBody>\<newline>'' @
     ''          <p>'' @ question_html_xml @ ''</p>\<newline>'' @
     ''          <choiceInteraction responseIdentifier="RESPONSE" shuffle="'' @ shuffle @ ''" maxChoices="1">\<newline>'' @
     choices @ ''\<newline>'' @
     ''          </choiceInteraction>\<newline>'' @
     ''        </itemBody>\<newline>''\<close>

definition ITEM_BODY_MULTANS :: "string \<Rightarrow> string \<Rightarrow> string \<Rightarrow> string \<Rightarrow> string" where
  \<open>ITEM_BODY_MULTANS question_html_xml shuffle max_choices choices =
     ''        <itemBody>\<newline>'' @
     ''          <p>'' @ question_html_xml @ ''</p>\<newline>'' @
     ''          <choiceInteraction responseIdentifier="RESPONSE" shuffle="'' @ shuffle @ ''" maxChoices="'' @ max_choices @ ''">\<newline>'' @
     choices @ ''\<newline>'' @
     ''          </choiceInteraction>\<newline>'' @
     ''        </itemBody>\<newline>''\<close>

definition ITEM_BODY_CHOICE :: "string \<Rightarrow> string \<Rightarrow> string" where
  \<open>ITEM_BODY_CHOICE ident choice_html_xml =
     ''            <simpleChoice identifier="'' @ ident @ ''" fixed="false">'' @ choice_html_xml @ ''</simpleChoice>\<newline>''\<close>

definition ITEM_BODY_SHORTANS :: "string \<Rightarrow> string" where
  \<open>ITEM_BODY_SHORTANS question_html_xml =
     ''        <itemBody>\<newline>'' @
     ''          <p>'' @ question_html_xml @ ''</p>\<newline>'' @
     ''          <textEntryInteraction responseIdentifier="RESPONSE" expectedLength="50"/>\<newline>'' @
     ''        </itemBody>\<newline>''\<close>

definition ITEM_BODY_ESSAY :: "string \<Rightarrow> string" where
  \<open>ITEM_BODY_ESSAY question_html_xml =
     ''        <itemBody>\<newline>'' @
     ''          <p>'' @ question_html_xml @ ''</p>\<newline>'' @
     ''          <extendedTextInteraction responseIdentifier="RESPONSE" expectedLength="1000"/>\<newline>'' @
     ''        </itemBody>\<newline>''\<close>

definition ITEM_BODY_UPLOAD :: "string \<Rightarrow> string" where
  \<open>ITEM_BODY_UPLOAD question_html_xml =
     ''        <itemBody>\<newline>'' @
     ''          <p>'' @ question_html_xml @ ''</p>\<newline>'' @
     ''          <uploadInteraction responseIdentifier="RESPONSE"/>\<newline>'' @
     ''        </itemBody>\<newline>''\<close>

definition ITEM_BODY_NUM :: "string \<Rightarrow> string" where
  \<open>ITEM_BODY_NUM question_html_xml =
     ''        <itemBody>\<newline>'' @
     ''          <p>'' @ question_html_xml @ ''</p>\<newline>'' @
     ''          <textEntryInteraction responseIdentifier="RESPONSE" baseType="float" expectedLength="20"/>\<newline>'' @
     ''        </itemBody>\<newline>''\<close>

definition RESPONSE_PROCESSING_MCTF :: "string \<Rightarrow> string \<Rightarrow> string \<Rightarrow> string \<Rightarrow> string" where
  \<open>RESPONSE_PROCESSING_MCTF points_possible correct_feedback incorrect_feedback general_feedback =
     ''        <responseProcessing>\<newline>'' @
     ''          <responseCondition>\<newline>'' @
     ''            <responseIf>\<newline>'' @
     ''              <match>\<newline>'' @
     ''                <variable identifier="RESPONSE"/>\<newline>'' @
     ''                <correct identifier="RESPONSE"/>\<newline>'' @
     ''              </match>\<newline>'' @
     ''              <setOutcomeValue identifier="SCORE">\<newline>'' @
     ''                <sum>\<newline>'' @
     ''                  <variable identifier="SCORE"/>\<newline>'' @
     ''                  <baseValue baseType="float">'' @ points_possible @ ''</baseValue>\<newline>'' @
     ''                </sum>\<newline>'' @
     ''              </setOutcomeValue>\<newline>'' @
     correct_feedback @ ''\<newline>'' @
     ''            </responseIf>\<newline>'' @
     incorrect_feedback @ ''\<newline>'' @
     general_feedback @ ''\<newline>'' @
     ''          </responseCondition>\<newline>'' @
     ''        </responseProcessing>\<newline>''\<close>

definition RESPONSE_PROCESSING_MULTANS :: "string \<Rightarrow> string \<Rightarrow> string \<Rightarrow> string \<Rightarrow> string \<Rightarrow> string" where
  \<open>RESPONSE_PROCESSING_MULTANS match_conditions points_possible correct_feedback incorrect_feedback general_feedback =
     ''        <responseProcessing>\<newline>'' @
     ''          <responseCondition>\<newline>'' @
     ''            <responseIf>\<newline>'' @
     ''              <and>\<newline>'' @
     match_conditions @ ''\<newline>'' @
     ''              </and>\<newline>'' @
     ''              <setOutcomeValue identifier="SCORE">\<newline>'' @
     ''                <sum>\<newline>'' @
     ''                  <variable identifier="SCORE"/>\<newline>'' @
     ''                  <baseValue baseType="float">'' @ points_possible @ ''</baseValue>\<newline>'' @
     ''                </sum>\<newline>'' @
     ''              </setOutcomeValue>\<newline>'' @
     correct_feedback @ ''\<newline>'' @
     ''            </responseIf>\<newline>'' @
     incorrect_feedback @ ''\<newline>'' @
     general_feedback @ ''\<newline>'' @
     ''          </responseCondition>\<newline>'' @
     ''        </responseProcessing>\<newline>''\<close>

definition RESPONSE_PROCESSING_SHORTANS :: "string \<Rightarrow> string \<Rightarrow> string \<Rightarrow> string \<Rightarrow> string \<Rightarrow> string" where
  \<open>RESPONSE_PROCESSING_SHORTANS varequal_conditions points_possible correct_feedback incorrect_feedback general_feedback =
     ''        <responseProcessing>\<newline>'' @
     ''          <responseCondition>\<newline>'' @
     ''            <responseIf>\<newline>'' @
     ''              <or>\<newline>'' @
     varequal_conditions @ ''\<newline>'' @
     ''              </or>\<newline>'' @
     ''              <setOutcomeValue identifier="SCORE">\<newline>'' @
     ''                <sum>\<newline>'' @
     ''                  <variable identifier="SCORE"/>\<newline>'' @
     ''                  <baseValue baseType="float">'' @ points_possible @ ''</baseValue>\<newline>'' @
     ''                </sum>\<newline>'' @
     ''              </setOutcomeValue>\<newline>'' @
     correct_feedback @ ''\<newline>'' @
     ''            </responseIf>\<newline>'' @
     incorrect_feedback @ ''\<newline>'' @
     general_feedback @ ''\<newline>'' @
     ''          </responseCondition>\<newline>'' @
     ''        </responseProcessing>\<newline>''\<close>

definition RESPONSE_PROCESSING_NUM :: "string \<Rightarrow> string \<Rightarrow> string \<Rightarrow> string \<Rightarrow> string \<Rightarrow> string \<Rightarrow> string" where
  \<open>RESPONSE_PROCESSING_NUM num_min num_max points_possible correct_feedback incorrect_feedback general_feedback =
     ''        <responseProcessing>\<newline>'' @
     ''          <responseCondition>\<newline>'' @
     ''            <responseIf>\<newline>'' @
     ''              <and>\<newline>'' @
     ''                <gte>\<newline>'' @
     ''                  <variable identifier="RESPONSE"/>\<newline>'' @
     ''                  <baseValue baseType="float">'' @ num_min @ ''</baseValue>\<newline>'' @
     ''                </gte>\<newline>'' @
     ''                <lte>\<newline>'' @
     ''                  <variable identifier="RESPONSE"/>\<newline>'' @
     ''                  <baseValue baseType="float">'' @ num_max @ ''</baseValue>\<newline>'' @
     ''                </lte>\<newline>'' @
     ''              </and>\<newline>'' @
     ''              <setOutcomeValue identifier="SCORE">\<newline>'' @
     ''                <sum>\<newline>'' @
     ''                  <variable identifier="SCORE"/>\<newline>'' @
     ''                  <baseValue baseType="float">'' @ points_possible @ ''</baseValue>\<newline>'' @
     ''                </sum>\<newline>'' @
     ''              </setOutcomeValue>\<newline>'' @
     correct_feedback @ ''\<newline>'' @
     ''            </responseIf>\<newline>'' @
     incorrect_feedback @ ''\<newline>'' @
     general_feedback @ ''\<newline>'' @
     ''          </responseCondition>\<newline>'' @
     ''        </responseProcessing>\<newline>''\<close>

definition RESPONSE_PROCESSING_ESSAY :: "string \<Rightarrow> string" where
  \<open>RESPONSE_PROCESSING_ESSAY general_feedback =
     ''        <responseProcessing>\<newline>'' @
     ''          <responseCondition>\<newline>'' @
     ''            <responseIf>\<newline>'' @
     ''              <isNull>\<newline>'' @
     ''                <variable identifier="RESPONSE"/>\<newline>'' @
     ''              </isNull>\<newline>'' @
     ''              <setOutcomeValue identifier="SCORE">\<newline>'' @
     ''                <baseValue baseType="float">0</baseValue>\<newline>'' @
     ''              </setOutcomeValue>\<newline>'' @
     ''            </responseIf>\<newline>'' @
     general_feedback @ ''\<newline>'' @
     ''          </responseCondition>\<newline>'' @
     ''        </responseProcessing>\<newline>''\<close>

definition MATCH_CONDITION :: "string \<Rightarrow> string" where
  \<open>MATCH_CONDITION ident =
     ''                <match>\<newline>'' @
     ''                  <variable identifier="RESPONSE"/>\<newline>'' @
     ''                  <baseValue baseType="identifier">'' @ ident @ ''</baseValue>\<newline>'' @
     ''                </match>\<newline>''\<close>

definition VARQUAL_CONDITION :: "string \<Rightarrow> string" where
  \<open>VARQUAL_CONDITION answer_xml =
     ''                <match>\<newline>'' @
     ''                  <variable identifier="RESPONSE"/>\<newline>'' @
     ''                  <baseValue baseType="string">'' @ answer_xml @ ''</baseValue>\<newline>'' @
     ''                </match>\<newline>''\<close>

definition FEEDBACK_CORRECT :: "string \<Rightarrow> string" where
  \<open>FEEDBACK_CORRECT feedback =
     ''              <setOutcomeValue identifier="FEEDBACK">\<newline>'' @
     ''                <baseValue baseType="string">'' @ feedback @ ''</baseValue>\<newline>'' @
     ''              </setOutcomeValue>\<newline>''\<close>

definition FEEDBACK_INCORRECT :: "string \<Rightarrow> string" where
  \<open>FEEDBACK_INCORRECT feedback =
     ''            <responseElse>\<newline>'' @
     ''              <setOutcomeValue identifier="FEEDBACK">\<newline>'' @
     ''                <baseValue baseType="string">'' @ feedback @ ''</baseValue>\<newline>'' @
     ''              </setOutcomeValue>\<newline>'' @
     ''            </responseElse>\<newline>''\<close>

definition FEEDBACK_GENERAL :: "string \<Rightarrow> string" where
  \<open>FEEDBACK_GENERAL feedback =
     ''            <responseElse>\<newline>'' @
     ''              <setOutcomeValue identifier="FEEDBACK">\<newline>'' @
     ''                <baseValue baseType="string">'' @ feedback @ ''</baseValue>\<newline>'' @
     ''              </setOutcomeValue>\<newline>'' @
     ''            </responseElse>\<newline>''\<close>
definition RESPONSE_PROCESSING_UPLOAD :: "string \<Rightarrow> string" where
  "RESPONSE_PROCESSING_UPLOAD = RESPONSE_PROCESSING_ESSAY"

section \<open>The generator\<close>

text \<open>The thirteen strings appended for a \<^verbatim>\<open>TextRegion\<close> (no newline between them).\<close>

definition text_region_item :: "text_region \<Rightarrow> string list" where
  \<open>text_region_item r =
     (let item_id = ''qtimaker_text_'' @ t_id r in
      [''      <assessmentItem identifier="'' @ item_id @ ''" title="'' @ t_title_xml r
         @ ''" adaptive="false" timeDependent="false">'',
       ''        <itemBody>'',
       ''          <p>'' @ t_text_html_xml r @ ''</p>'',
       ''        </itemBody>'',
       ''        <outcomeDeclaration identifier="SCORE" baseType="float" cardinality="single">'',
       ''          <defaultValue>'',
       ''            <value>0</value>'',
       ''          </defaultValue>'',
       ''        </outcomeDeclaration>'',
       ''        <responseProcessing>'',
       ''          <responseCondition/>'',
       ''        </responseProcessing>'',
       ''      </assessmentItem>''])\<close>

text \<open>
  The line \<^verbatim>\<open>f'            <correctResponse><value>{v}</value></correctResponse>'\<close>,
  which the code writes out four times.
\<close>

definition correct_response_line :: "string \<Rightarrow> string" where
  \<open>correct_response_line v =
     ''            <correctResponse><value>'' @ v @ ''</value></correctResponse>''\<close>

text \<open>
  The response declaration of a question: base type, cardinality and body. The correct
  response of a choice question is written from \<^verbatim>\<open>choice.id\<close> as it is.
\<close>

definition response_declaration :: "question \<Rightarrow> string \<times> string \<times> string" where
  "response_declaration question =
     (if q_type question \<in> set [''true_false_question'', ''multiple_choice_question'',
                                  ''multiple_answers_question''] then
        (let base_type = ''identifier'';
             cardinality = (if q_type question = ''multiple_answers_question''
                            then ''multiple'' else ''single'');
             correct_responses =
               map (\<lambda>choice. correct_response_line (c_id choice))
                   (filter c_correct (q_choices question))
         in (base_type, cardinality, join ''\<newline>'' correct_responses))
      else if q_type question = ''short_answer_question'' then
        (let correct_responses =
               map (\<lambda>choice. correct_response_line (c_choice_xml choice)) (q_choices question)
         in (''string'', ''single'', join ''\<newline>'' correct_responses))
      else if q_type question = ''numerical_question'' then
        (''float'', ''single'',
         (if q_numerical_exact question \<noteq> None
          then correct_response_line (q_numerical_exact_html_xml question)
          else correct_response_line (q_numerical_min_html_xml question)))
      else (''string'', ''single'', ''''))"

text \<open>The choice list of an item body; every choice is identified by its prefixed id.\<close>

definition choices_xml :: "question \<Rightarrow> string" where
  "choices_xml question =
     join ''\<newline>''
       (map (\<lambda>c. ITEM_BODY_CHOICE (''qtimaker_choice_'' @ c_id c) (c_choice_html_xml c))
            (q_choices question))"

definition item_body :: "string \<Rightarrow> question \<Rightarrow> error + string" where
  "item_body shuffle question =
     (if q_type question \<in> set [''true_false_question'', ''multiple_choice_question''] then
        Inr (ITEM_BODY_MCTF (q_question_html_xml question) shuffle (choices_xml question))
      else if q_type question = ''multiple_answers_question'' then
        Inr (ITEM_BODY_MULTANS (q_question_html_xml question) shuffle
               (str_int (int (length (q_choices question)))) (choices_xml question))
      else if q_type question = ''short_answer_question'' then
        Inr (ITEM_BODY_SHORTANS (q_question_html_xml question))
      else if q_type question = ''numerical_question'' then
        Inr (ITEM_BODY_NUM (q_question_html_xml question))
      else if q_type question = ''essay_question'' then
        Inr (ITEM_BODY_ESSAY (q_question_html_xml question))
      else if q_type question = ''file_upload_question'' then
        Inr (ITEM_BODY_UPLOAD (q_question_html_xml question))
      else Inl ValueError)"

text \<open>The three feedback strings, each empty unless its raw attribute is set.\<close>

definition correct_feedback_of :: "question \<Rightarrow> string" where
  "correct_feedback_of question =
     (if q_correct_feedback_raw question \<noteq> None
      then FEEDBACK_CORRECT (q_correct_feedback_html_xml question) else '''')"

definition incorrect_feedback_of :: "question \<Rightarrow> string" where
  "incorrect_feedback_of question =
     (if q_incorrect_feedback_raw question \<noteq> None
      then FEEDBACK_INCORRECT (q_incorrect_feedback_html_xml question) else '''')"

definition general_feedback_of :: "question \<Rightarrow> string" where
  "general_feedback_of question =
     (if q_feedback_raw question \<noteq> None
      then FEEDBACK_GENERAL (q_feedback_html_xml question) else '''')"

definition response_processing :: "question \<Rightarrow> error + string" where
  "response_processing question =
     (let correct_feedback = correct_feedback_of question;
          incorrect_feedback = incorrect_feedback_of question;
          general_feedback = general_feedback_of question;
          points = str_int (q_points_possible question)
      in
      if q_type question \<in> set [''true_false_question'', ''multiple_choice_question''] then
        Inr (RESPONSE_PROCESSING_MCTF points correct_feedback incorrect_feedback
               general_feedback)
      else if q_type question = ''multiple_answers_question'' then
        (let match_conditions =
               map (\<lambda>choice. MATCH_CONDITION (''qtimaker_choice_'' @ c_id choice))
                   (filter c_correct (q_choices question))
         in Inr (RESPONSE_PROCESSING_MULTANS (join ''\<newline>'' match_conditions) points
                   correct_feedback incorrect_feedback general_feedback))
      else if q_type question = ''short_answer_question'' then
        (let varequal_conditions =
               map (\<lambda>choice. VARQUAL_CONDITION (c_choice_xml choice)) (q_choices question)
         in Inr (RESPONSE_PROCESSING_SHORTANS (join ''\<newline>'' varequal_conditions) points
                   correct_feedback incorrect_feedback general_feedback))
      else if q_type question = ''numerical_question'' then
        Inr (RESPONSE_PROCESSING_NUM (q_numerical_min_html_xml question)
               (q_numerical_max_html_xml question) points
               correct_feedback incorrect_feedback general_feedback)
      else if q_type question = ''essay_question'' then
        Inr (RESPONSE_PROCESSING_ESSAY general_feedback)
      else if q_type question = ''file_upload_question'' then
        Inr (RESPONSE_PROCESSING_UPLOAD general_feedback)
      else Inl ValueError)"

text \<open>
  One pass of the main loop over a \<^verbatim>\<open>Question\<close>: the strings it appends, or the
  exception that ends the call.
\<close>

definition question_item :: "quiz \<Rightarrow> question \<Rightarrow> error + string list" where
  "question_item quiz question =
     (let start = START_ITEM (''qtimaker_question_'' @ q_id question) (q_title_xml question);
          (base_type, cardinality, response_declaration_body) = response_declaration question;
          metadata =
            (if q_type question \<notin> set [''essay_question'', ''file_upload_question'']
             then [ITEM_METADATA base_type cardinality response_declaration_body
                     (str_int (q_points_possible question))]
             else []);
          shuffle = (if shuffle_answers_xml quiz = ''true'' then ''true'' else ''false'')
      in case item_body shuffle question of
           Inl e \<Rightarrow> Inl e
         | Inr body \<Rightarrow>
             (case response_processing question of
                Inl e \<Rightarrow> Inl e
              | Inr processing \<Rightarrow> Inr ([start] @ metadata @ [body, processing, END_ITEM])))"

fun emit_entry :: "quiz \<Rightarrow> entry \<Rightarrow> error + string list" where
  "emit_entry quiz (TextRegion r) = Inr (text_region_item r)"
| "emit_entry quiz (GroupStart g) =
     Inr [GROUP_START (''qtimaker_group_'' @ g_id g) (g_title_xml g) (str_int (g_pick g))
            (str_int (g_points_per_question g))]"
| "emit_entry quiz GroupEnd = Inr [GROUP_END]"
| "emit_entry quiz Other = Inl TypeError"
| "emit_entry quiz (Question question) = question_item quiz question"

text \<open>The main loop, with the list \<^verbatim>\<open>xml\<close> as accumulator.\<close>

fun emit_all :: "quiz \<Rightarrow> entry list \<Rightarrow> string list \<Rightarrow> error + string list" where
  "emit_all quiz [] xml = Inr xml"
| "emit_all quiz (x # xs) xml =
     (case emit_entry quiz x of
        Inl e \<Rightarrow> Inl e
      | Inr new \<Rightarrow> emit_all quiz xs (xml @ new))"

text \<open>The first loop: the total written as the default of \<^verbatim>\<open>MAXSCORE\<close>.\<close>

fun total_points :: "entry list \<Rightarrow> int \<Rightarrow> int" where
  "total_points [] points_possible = points_possible"
| "total_points (Question q # xs) points_possible =
     total_points xs (points_possible + q_points_possible q)"
| "total_points (GroupStart g # xs) points_possible =
     total_points xs (points_possible + g_points_per_question g * g_pick g)"
| "total_points (x # xs) points_possible = total_points xs points_possible"

definition assessment_v2 :: "quiz \<Rightarrow> string \<Rightarrow> string \<Rightarrow> error + string" where
  "assessment_v2 quiz assessment_identifier title_xml =
     (let xml = [BEFORE_ITEMS assessment_identifier title_xml];
          points_possible = total_points (questions_and_delims quiz) 0
      in case emit_all quiz (questions_and_delims quiz) xml of
           Inl e \<Rightarrow> Inl e
         | Inr xml \<Rightarrow> Inr (concat (xml @ [AFTER_ITEMS (str_int points_possible)])))"

section \<open>The emitted items as XML trees\<close>

text \<open>
  The generator writes text. To speak about the elements of an emitted item (its response
  declaration, its choices, its response processing) the item is also given as a tree,
  and the tree is tied to the text: the text the generator appends for an entry and the
  serialisation of the entry's tree are equal up to blanks and line breaks.
\<close>

datatype xml =
    Elem string "(string \<times> string) list" "xml list"
  | Empty string "(string \<times> string) list"
  | Text string

definition attributes :: "(string \<times> string) list \<Rightarrow> string" where
  \<open>attributes as = concat (map (\<lambda>(k, v). '' '' @ k @ ''="'' @ v @ ''"'') as)\<close>

fun render :: "xml \<Rightarrow> string" where
  "render (Text s) = s"
| "render (Empty n as) = ''<'' @ n @ attributes as @ ''/>''"
| "render (Elem n as cs) =
     ''<'' @ n @ attributes as @ ''>'' @ concat (map render cs) @ ''</'' @ n @ ''>''"

definition squeeze :: "string \<Rightarrow> string" where
  "squeeze s = filter (\<lambda>c. c \<noteq> CHR '' '' \<and> c \<noteq> CHR ''\<newline>'') s"

fun elem_name :: "xml \<Rightarrow> string" where
  "elem_name (Elem n as cs) = n"
| "elem_name (Empty n as) = n"
| "elem_name (Text s) = []"

fun children :: "xml \<Rightarrow> xml list" where
  "children (Elem n as cs) = cs"
| "children x = []"

definition child_elems :: "string \<Rightarrow> xml \<Rightarrow> xml list" where
  "child_elems n x = filter (\<lambda>c. elem_name c = n) (children x)"

fun text_of :: "xml \<Rightarrow> string" where
  "text_of (Text s) = s"
| "text_of (Empty n as) = []"
| "text_of (Elem n as cs) = concat (map text_of cs)"

text \<open>The names of all elements of a tree, in document order.\<close>

fun elem_names :: "xml \<Rightarrow> string list" where
  "elem_names (Text s) = []"
| "elem_names (Empty n as) = [n]"
| "elem_names (Elem n as cs) = n # concat (map elem_names cs)"

subsection \<open>Trees of the generated items\<close>

definition score_declaration_tree :: xml where
  "score_declaration_tree =
     Elem ''outcomeDeclaration''
       [(''identifier'', ''SCORE''), (''baseType'', ''float''), (''cardinality'', ''single'')]
       [Elem ''defaultValue'' [] [Elem ''value'' [] [Text ''0'']]]"

definition text_region_tree :: "text_region \<Rightarrow> xml" where
  "text_region_tree r =
     Elem ''assessmentItem''
       [(''identifier'', ''qtimaker_text_'' @ t_id r), (''title'', t_title_xml r),
        (''adaptive'', ''false''), (''timeDependent'', ''false'')]
       [Elem ''itemBody'' [] [Elem ''p'' [] [Text (t_text_html_xml r)]],
        score_declaration_tree,
        Elem ''responseProcessing'' [] [Empty ''responseCondition'' []]]"

text \<open>The values the response declaration lists as correct responses.\<close>

definition correct_values :: "question \<Rightarrow> string list" where
  "correct_values question =
     (if q_type question \<in> set [''true_false_question'', ''multiple_choice_question'',
                                  ''multiple_answers_question'']
      then map c_id (filter c_correct (q_choices question))
      else if q_type question = ''short_answer_question''
      then map c_choice_xml (q_choices question)
      else if q_type question = ''numerical_question''
      then [if q_numerical_exact question \<noteq> None then q_numerical_exact_html_xml question
            else q_numerical_min_html_xml question]
      else [])"

definition metadata_trees :: "question \<Rightarrow> xml list" where
  "metadata_trees question =
     (if q_type question \<notin> set [''essay_question'', ''file_upload_question'']
      then
        [Elem ''responseDeclaration''
           [(''identifier'', ''RESPONSE''), (''baseType'', fst (response_declaration question)),
            (''cardinality'', fst (snd (response_declaration question)))]
           (map (\<lambda>v. Elem ''correctResponse'' [] [Elem ''value'' [] [Text v]])
                (correct_values question)),
         score_declaration_tree,
         Elem ''outcomeDeclaration''
           [(''identifier'', ''MAXSCORE''), (''baseType'', ''float''),
            (''cardinality'', ''single'')]
           [Elem ''defaultValue'' []
              [Elem ''value'' [] [Text (str_int (q_points_possible question))]]]]
      else [])"

definition choice_tree :: "choice \<Rightarrow> xml" where
  "choice_tree c =
     Elem ''simpleChoice'' [(''identifier'', ''qtimaker_choice_'' @ c_id c), (''fixed'', ''false'')]
       [Text (c_choice_html_xml c)]"

definition interaction_tree :: "string \<Rightarrow> question \<Rightarrow> error + xml" where
  "interaction_tree shuffle question =
     (if q_type question \<in> set [''true_false_question'', ''multiple_choice_question''] then
        Inr (Elem ''choiceInteraction''
               [(''responseIdentifier'', ''RESPONSE''), (''shuffle'', shuffle),
                (''maxChoices'', ''1'')]
               (map choice_tree (q_choices question)))
      else if q_type question = ''multiple_answers_question'' then
        Inr (Elem ''choiceInteraction''
               [(''responseIdentifier'', ''RESPONSE''), (''shuffle'', shuffle),
                (''maxChoices'', str_int (int (length (q_choices question))))]
               (map choice_tree (q_choices question)))
      else if q_type question = ''short_answer_question'' then
        Inr (Empty ''textEntryInteraction''
               [(''responseIdentifier'', ''RESPONSE''), (''expectedLength'', ''50'')])
      else if q_type question = ''numerical_question'' then
        Inr (Empty ''textEntryInteraction''
               [(''responseIdentifier'', ''RESPONSE''), (''baseType'', ''float''),
                (''expectedLength'', ''20'')])
      else if q_type question = ''essay_question'' then
        Inr (Empty ''extendedTextInteraction''
               [(''responseIdentifier'', ''RESPONSE''), (''expectedLength'', ''1000'')])
      else if q_type question = ''file_upload_question'' then
        Inr (Empty ''uploadInteraction'' [(''responseIdentifier'', ''RESPONSE'')])
      else Inl ValueError)"

definition body_tree :: "question \<Rightarrow> xml \<Rightarrow> xml" where
  "body_tree question interaction =
     Elem ''itemBody'' [] [Elem ''p'' [] [Text (q_question_html_xml question)], interaction]"

definition response_variable :: xml where
  "response_variable = Empty ''variable'' [(''identifier'', ''RESPONSE'')]"

definition correct_operand :: xml where
  "correct_operand = Empty ''correct'' [(''identifier'', ''RESPONSE'')]"

definition score_variable :: xml where
  "score_variable = Empty ''variable'' [(''identifier'', ''SCORE'')]"

definition base_value :: "string \<Rightarrow> string \<Rightarrow> xml" where
  "base_value base_type v = Elem ''baseValue'' [(''baseType'', base_type)] [Text v]"

definition match_tree :: "string \<Rightarrow> string \<Rightarrow> xml" where
  "match_tree base_type v = Elem ''match'' [] [response_variable, base_value base_type v]"

definition award_tree :: "string \<Rightarrow> xml" where
  "award_tree points =
     Elem ''setOutcomeValue'' [(''identifier'', ''SCORE'')]
       [Elem ''sum'' [] [score_variable, base_value ''float'' points]]"

definition feedback_tree :: "string \<Rightarrow> xml" where
  "feedback_tree feedback =
     Elem ''setOutcomeValue'' [(''identifier'', ''FEEDBACK'')] [base_value ''string'' feedback]"

definition else_tree :: "string \<Rightarrow> xml" where
  "else_tree feedback = Elem ''responseElse'' [] [feedback_tree feedback]"

definition correct_feedback_trees :: "question \<Rightarrow> xml list" where
  "correct_feedback_trees question =
     (if q_correct_feedback_raw question \<noteq> None
      then [feedback_tree (q_correct_feedback_html_xml question)] else [])"

definition incorrect_feedback_trees :: "question \<Rightarrow> xml list" where
  "incorrect_feedback_trees question =
     (if q_incorrect_feedback_raw question \<noteq> None
      then [else_tree (q_incorrect_feedback_html_xml question)] else [])"

definition general_feedback_trees :: "question \<Rightarrow> xml list" where
  "general_feedback_trees question =
     (if q_feedback_raw question \<noteq> None
      then [else_tree (q_feedback_html_xml question)] else [])"

text \<open>The condition of the \<^verbatim>\<open>responseIf\<close> of the five scored question types.\<close>

definition condition_tree :: "question \<Rightarrow> xml" where
  "condition_tree question =
     (if q_type question \<in> set [''true_false_question'', ''multiple_choice_question''] then
        Elem ''match'' [] [response_variable, correct_operand]
      else if q_type question = ''multiple_answers_question'' then
        Elem ''and'' []
          (map (\<lambda>choice. match_tree ''identifier'' (''qtimaker_choice_'' @ c_id choice))
               (filter c_correct (q_choices question)))
      else if q_type question = ''short_answer_question'' then
        Elem ''or'' []
          (map (\<lambda>choice. match_tree ''string'' (c_choice_xml choice)) (q_choices question))
      else
        Elem ''and'' []
          [Elem ''gte'' []
             [response_variable, base_value ''float'' (q_numerical_min_html_xml question)],
           Elem ''lte'' []
             [response_variable, base_value ''float'' (q_numerical_max_html_xml question)]])"

definition processing_tree :: "question \<Rightarrow> error + xml" where
  "processing_tree question =
     (if q_type question \<in> set [''true_false_question'', ''multiple_choice_question'',
          ''multiple_answers_question'', ''short_answer_question'', ''numerical_question''] then
        Inr (Elem ''responseProcessing'' []
               [Elem ''responseCondition'' []
                  ([Elem ''responseIf'' []
                      ([condition_tree question,
                        award_tree (str_int (q_points_possible question))]
                       @ correct_feedback_trees question)]
                   @ incorrect_feedback_trees question
                   @ general_feedback_trees question)])
      else if q_type question \<in> set [''essay_question'', ''file_upload_question''] then
        Inr (Elem ''responseProcessing'' []
               [Elem ''responseCondition'' []
                  ([Elem ''responseIf'' []
                      [Elem ''isNull'' [] [response_variable],
                       Elem ''setOutcomeValue'' [(''identifier'', ''SCORE'')]
                         [base_value ''float'' ''0'']]]
                   @ general_feedback_trees question)])
      else Inl ValueError)"

definition question_tree :: "quiz \<Rightarrow> question \<Rightarrow> error + xml" where
  "question_tree quiz question =
     (case interaction_tree (if shuffle_answers_xml quiz = ''true'' then ''true'' else ''false'')
             question of
        Inl e \<Rightarrow> Inl e
      | Inr interaction \<Rightarrow>
          (case processing_tree question of
             Inl e \<Rightarrow> Inl e
           | Inr processing \<Rightarrow>
               Inr (Elem ''assessmentItem''
                      [(''identifier'', ''qtimaker_question_'' @ q_id question),
                       (''title'', q_title_xml question),
                       (''adaptive'', ''false''), (''timeDependent'', ''false'')]
                      (metadata_trees question
                       @ [body_tree question interaction, processing]))))"

section \<open>Reading the response processing\<close>

text \<open>
  What the emitted rules do with a candidate's response, read element by element as QTI 2.1
  names them. A response is absent, one value, or a container of values; numbers are
  left abstract: \<open>num\<close> reads a numeral, and only order and addition are used.

  \<^item> \<^verbatim>\<open>match\<close> of the response with \<^verbatim>\<open>correct\<close> holds when the response is the declared
    correct response.
  \<^item> \<^verbatim>\<open>match\<close> of the response with a base value holds when a single response equals the
    value. The generator also writes this test for a response of multiple cardinality;
    there it is read as the specification reads the rule, the value is among the selected
    ones.
  \<^item> \<^verbatim>\<open>gte\<close>, \<^verbatim>\<open>lte\<close> compare a single response with a base value; \<^verbatim>\<open>isNull\<close> holds for the
    absent response; \<^verbatim>\<open>and\<close>, \<^verbatim>\<open>or\<close> combine their operands.
  \<^item> A \<^verbatim>\<open>responseCondition\<close> runs the rules of its \<^verbatim>\<open>responseIf\<close> when the condition holds,
    otherwise the rules of its \<^verbatim>\<open>responseElse\<close> branches in document order.
\<close>

datatype response = Null | Single string | Multiple "string list"

record 'n outcomes =
  SCORE :: 'n
  FEEDBACK :: "string option"

fun matches_value :: "response \<Rightarrow> string \<Rightarrow> bool" where
  "matches_value Null v = False"
| "matches_value (Single s) v = (s = v)"
| "matches_value (Multiple ss) v = (v \<in> set ss)"

fun matches_correct :: "response \<Rightarrow> string list \<Rightarrow> bool" where
  "matches_correct Null correct = False"
| "matches_correct (Single s) correct = (correct = [s])"
| "matches_correct (Multiple ss) correct = (set ss = set correct)"

fun compare_num :: "(string \<Rightarrow> 'n) \<Rightarrow> ('n \<Rightarrow> 'n \<Rightarrow> bool) \<Rightarrow> response \<Rightarrow> string \<Rightarrow> bool" where
  "compare_num num rel (Single s) v = rel (num s) (num v)"
| "compare_num num rel r v = False"

fun holds :: "(string \<Rightarrow> 'n::ord) \<Rightarrow> string list \<Rightarrow> response \<Rightarrow> xml \<Rightarrow> bool" where
  "holds num correct r (Elem n as cs) =
     (if n = ''and'' then list_all (holds num correct r) cs
      else if n = ''or'' then list_ex (holds num correct r) cs
      else if n = ''match'' then
        (case cs of
           [a, Empty m bs] \<Rightarrow>
             a = response_variable \<and> Empty m bs = correct_operand \<and> matches_correct r correct
         | [a, Elem m bs [Text v]] \<Rightarrow>
             a = response_variable \<and> m = ''baseValue'' \<and> matches_value r v
         | _ \<Rightarrow> False)
      else if n = ''gte'' then
        (case cs of
           [a, Elem m bs [Text v]] \<Rightarrow>
             a = response_variable \<and> m = ''baseValue'' \<and> compare_num num (\<lambda>x y. y \<le> x) r v
         | _ \<Rightarrow> False)
      else if n = ''lte'' then
        (case cs of
           [a, Elem m bs [Text v]] \<Rightarrow>
             a = response_variable \<and> m = ''baseValue'' \<and> compare_num num (\<lambda>x y. x \<le> y) r v
         | _ \<Rightarrow> False)
      else if n = ''isNull'' then cs = [response_variable] \<and> r = Null
      else False)"
| "holds num correct r x = False"

declare holds.simps [simp del]

text \<open>One \<^verbatim>\<open>setOutcomeValue\<close> rule.\<close>

fun set_outcome :: "(string \<Rightarrow> 'n::plus) \<Rightarrow> xml \<Rightarrow> 'n outcomes \<Rightarrow> 'n outcomes" where
  "set_outcome num (Elem n as [Elem m bs [Text v]]) out =
     (if n = ''setOutcomeValue'' \<and> m = ''baseValue'' then
        (if as = [(''identifier'', ''SCORE'')] then out\<lparr>SCORE := num v\<rparr>
         else if as = [(''identifier'', ''FEEDBACK'')] then out\<lparr>FEEDBACK := Some v\<rparr>
         else out)
      else out)"
| "set_outcome num (Elem n as [Elem m bs [a, Elem b ds [Text v]]]) out =
     (if n = ''setOutcomeValue'' \<and> as = [(''identifier'', ''SCORE'')] \<and> m = ''sum''
         \<and> a = score_variable \<and> b = ''baseValue''
      then out\<lparr>SCORE := SCORE out + num v\<rparr> else out)"
| "set_outcome num x out = out"

fun run_else :: "(string \<Rightarrow> 'n::plus) \<Rightarrow> xml \<Rightarrow> 'n outcomes \<Rightarrow> 'n outcomes" where
  "run_else num (Elem n as rules) out =
     (if n = ''responseElse'' then fold (set_outcome num) rules out else out)"
| "run_else num x out = out"

fun run_condition ::
  "(string \<Rightarrow> 'n::{ord,plus}) \<Rightarrow> string list \<Rightarrow> response \<Rightarrow> xml \<Rightarrow> 'n outcomes \<Rightarrow> 'n outcomes" where
  "run_condition num correct r (Elem n as (Elem i bs (c # rules) # elses)) out =
     (if n = ''responseCondition'' \<and> i = ''responseIf'' then
        (if holds num correct r c then fold (set_outcome num) rules out
         else fold (run_else num) elses out)
      else out)"
| "run_condition num correct r x out = out"

text \<open>The correct responses an item declares, and the outcome of its response processing.\<close>

definition declared_correct :: "xml \<Rightarrow> string list" where
  "declared_correct item =
     concat (map (\<lambda>d. concat (map (\<lambda>cr. map text_of (child_elems ''value'' cr))
                                   (child_elems ''correctResponse'' d)))
                 (child_elems ''responseDeclaration'' item))"

definition process_response ::
  "(string \<Rightarrow> 'n::{ord,plus}) \<Rightarrow> xml \<Rightarrow> response \<Rightarrow> 'n outcomes \<Rightarrow> 'n outcomes" where
  "process_response num item r out =
     fold (\<lambda>p. fold (run_condition num (declared_correct item) r) (children p))
          (child_elems ''responseProcessing'' item) out"

text \<open>The condition under which an item's \<^verbatim>\<open>responseIf\<close> fires.\<close>

definition item_condition :: "xml \<Rightarrow> xml list" where
  "item_condition item =
     concat (map (\<lambda>p. concat (map (\<lambda>c. concat (map (\<lambda>i. take 1 (children i))
                                                     (child_elems ''responseIf'' c)))
                                   (child_elems ''responseCondition'' p)))
                 (child_elems ''responseProcessing'' item))"

definition fires :: "(string \<Rightarrow> 'n::ord) \<Rightarrow> xml \<Rightarrow> response \<Rightarrow> bool" where
  "fires num item r =
     list_ex (holds num (declared_correct item) r) (item_condition item)"

text \<open>
  Parts of an item that the properties below speak about: the values of an attribute, the
  choice interactions of the item body with their \<^verbatim>\<open>maxChoices\<close>, the identifiers under
  which the choices are offered, and the \<^verbatim>\<open>responseElse\<close> branches of the response
  condition.
\<close>

fun attribute :: "string \<Rightarrow> xml \<Rightarrow> string list" where
  "attribute k (Elem n as cs) = map snd (filter (\<lambda>a. fst a = k) as)"
| "attribute k (Empty n as) = map snd (filter (\<lambda>a. fst a = k) as)"
| "attribute k (Text s) = []"

definition choice_interactions :: "xml \<Rightarrow> xml list" where
  "choice_interactions item =
     concat (map (child_elems ''choiceInteraction'') (child_elems ''itemBody'' item))"

definition max_choices :: "xml \<Rightarrow> string list" where
  "max_choices item = concat (map (attribute ''maxChoices'') (choice_interactions item))"

definition offered_choices :: "xml \<Rightarrow> string list" where
  "offered_choices item =
     concat (map (attribute ''identifier'')
               (concat (map (child_elems ''simpleChoice'') (choice_interactions item))))"

definition else_branches :: "xml \<Rightarrow> xml list" where
  "else_branches item =
     concat (map (child_elems ''responseElse'')
               (concat (map (child_elems ''responseCondition'')
                          (child_elems ''responseProcessing'' item))))"

subsection \<open>The item of a question\<close>

text \<open>
  The same readings for the item generated for a question. A question for which the
  generator raises has no item: nothing fires, nothing changes, the lists are empty.
\<close>

definition question_fires :: "(string \<Rightarrow> 'n::ord) \<Rightarrow> quiz \<Rightarrow> question \<Rightarrow> response \<Rightarrow> bool" where
  "question_fires num quiz question r =
     (case question_tree quiz question of
        Inl e \<Rightarrow> False
      | Inr item \<Rightarrow> fires num item r)"

definition question_outcome ::
  "(string \<Rightarrow> 'n::{ord,plus}) \<Rightarrow> quiz \<Rightarrow> question \<Rightarrow> response \<Rightarrow> 'n outcomes \<Rightarrow> 'n outcomes" where
  "question_outcome num quiz question r out =
     (case question_tree quiz question of
        Inl e \<Rightarrow> out
      | Inr item \<Rightarrow> process_response num item r out)"

definition question_declared_correct :: "quiz \<Rightarrow> question \<Rightarrow> string list" where
  "question_declared_correct quiz question =
     (case question_tree quiz question of Inl e \<Rightarrow> [] | Inr item \<Rightarrow> declared_correct item)"

definition question_offered_choices :: "quiz \<Rightarrow> question \<Rightarrow> string list" where
  "question_offered_choices quiz question =
     (case question_tree quiz question of Inl e \<Rightarrow> [] | Inr item \<Rightarrow> offered_choices item)"

definition question_max_choices :: "quiz \<Rightarrow> question \<Rightarrow> string list" where
  "question_max_choices quiz question =
     (case question_tree quiz question of Inl e \<Rightarrow> [] | Inr item \<Rightarrow> max_choices item)"

definition question_else_branches :: "quiz \<Rightarrow> question \<Rightarrow> xml list" where
  "question_else_branches quiz question =
     (case question_tree quiz question of Inl e \<Rightarrow> [] | Inr item \<Rightarrow> else_branches item)"

definition question_elem_names :: "quiz \<Rightarrow> question \<Rightarrow> string list" where
  "question_elem_names quiz question =
     (case question_tree quiz question of Inl e \<Rightarrow> [] | Inr item \<Rightarrow> elem_names item)"

text \<open>The seven question types with an encoding, the five that are scored, the two that are not.\<close>

definition scored_types :: "string list" where
  "scored_types = [''true_false_question'', ''multiple_choice_question'',
     ''multiple_answers_question'', ''short_answer_question'', ''numerical_question'']"

definition unscored_types :: "string list" where
  "unscored_types = [''essay_question'', ''file_upload_question'']"

definition encoded_types :: "string list" where
  "encoded_types = scored_types @ unscored_types"

definition null_check_tree :: xml where
  "null_check_tree = Elem ''isNull'' [] [response_variable]"

text \<open>The identifiers of the correct choices, as the item body names them.\<close>

definition correct_identifiers :: "question \<Rightarrow> string list" where
  "correct_identifiers question =
     map (\<lambda>c. ''qtimaker_choice_'' @ c_id c) (filter c_correct (q_choices question))"

section \<open>The specification's total score\<close>

text \<open>
  The total as the specification words it: the points of every standalone question, one
  that no group encloses, plus points per question times pick for every group. In the
  specification's data model the questions of a group are the entries between its
  \<open>GroupStart\<close> and its \<open>GroupEnd\<close>, which is also where the generator writes their
  items: inside the section it opens and closes for the two delimiters. The flag says
  whether the scan is between the two.
\<close>

fun spec_total :: "bool \<Rightarrow> entry list \<Rightarrow> int" where
  "spec_total in_group [] = 0"
| "spec_total in_group (Question q # xs) =
     (if in_group then 0 else q_points_possible q) + spec_total in_group xs"
| "spec_total in_group (GroupStart g # xs) =
     g_points_per_question g * g_pick g + spec_total True xs"
| "spec_total in_group (GroupEnd # xs) = spec_total False xs"
| "spec_total in_group (x # xs) = spec_total in_group xs"

definition spec_max_score :: "quiz \<Rightarrow> int" where
  "spec_max_score quiz = spec_total False (questions_and_delims quiz)"

text \<open>The points of the questions that a group encloses.\<close>

fun enclosed_points :: "bool \<Rightarrow> entry list \<Rightarrow> int" where
  "enclosed_points in_group [] = 0"
| "enclosed_points in_group (Question q # xs) =
     (if in_group then q_points_possible q else 0) + enclosed_points in_group xs"
| "enclosed_points in_group (GroupStart g # xs) = enclosed_points True xs"
| "enclosed_points in_group (GroupEnd # xs) = enclosed_points False xs"
| "enclosed_points in_group (x # xs) = enclosed_points in_group xs"


section \<open>Sample quizzes\<close>

text \<open>Concrete inputs at which the statements below are evaluated.\<close>

definition plain_choice :: "string \<Rightarrow> bool \<Rightarrow> choice" where
  "plain_choice ident is_correct =
     \<lparr>c_id = ident, c_correct = is_correct, c_choice_xml = ''choice'',
      c_choice_html_xml = ''choice''\<rparr>"

definition plain_question :: "string \<Rightarrow> string \<Rightarrow> question" where
  "plain_question ident type =
     \<lparr>q_id = ident, q_type = type, q_title_xml = ''Question'',
      q_question_html_xml = ''Text'', q_points_possible = 2, q_choices = [],
      q_numerical_exact = None, q_numerical_exact_html_xml = ''None'',
      q_numerical_min_html_xml = ''None'', q_numerical_max_html_xml = ''None'',
      q_correct_feedback_raw = None, q_correct_feedback_html_xml = ''None'',
      q_incorrect_feedback_raw = None, q_incorrect_feedback_html_xml = ''None'',
      q_feedback_raw = None, q_feedback_html_xml = ''None''\<rparr>"

definition plain_quiz :: "entry list \<Rightarrow> quiz" where
  "plain_quiz entries = \<lparr>questions_and_delims = entries, shuffle_answers_xml = ''false''\<rparr>"

text \<open>A group with pick 3 and 2 points per question around five questions of 2 points.\<close>

definition pool_quiz :: quiz where
  "pool_quiz =
     plain_quiz
       [GroupStart \<lparr>g_id = ''g1'', g_title_xml = ''Pool'', g_pick = 3,
                    g_points_per_question = 2\<rparr>,
        Question (plain_question ''q1'' ''essay_question''),
        Question (plain_question ''q2'' ''essay_question''),
        Question (plain_question ''q3'' ''essay_question''),
        Question (plain_question ''q4'' ''essay_question''),
        Question (plain_question ''q5'' ''essay_question''),
        GroupEnd]"

text \<open>Choices A (correct), B, C, D of a multiple-choice question.\<close>

definition mc_sample :: question where
  "mc_sample =
     (plain_question ''q1'' ''multiple_choice_question'')
       \<lparr>q_choices := [plain_choice ''a'' True, plain_choice ''b'' False,
                      plain_choice ''c'' False, plain_choice ''d'' False]\<rparr>"

definition tf_sample :: question where
  "tf_sample =
     (plain_question ''q2'' ''true_false_question'')
       \<lparr>q_choices := [plain_choice ''t'' True, plain_choice ''f'' False]\<rparr>"

text \<open>Choices A, B (correct), C, D (correct) of a multiple-answers question.\<close>

definition ma_sample :: question where
  "ma_sample =
     (plain_question ''q3'' ''multiple_answers_question'')
       \<lparr>q_choices := [plain_choice ''a'' False, plain_choice ''b'' True,
                      plain_choice ''c'' False, plain_choice ''d'' True]\<rparr>"

definition with_feedback :: "question \<Rightarrow> question" where
  "with_feedback question =
     question\<lparr>q_incorrect_feedback_raw := Some ''Try again'',
              q_incorrect_feedback_html_xml := ''Try again'',
              q_feedback_raw := Some ''See chapter 2'',
              q_feedback_html_xml := ''See chapter 2''\<rparr>"

definition essay_sample :: question where
  "essay_sample = with_feedback (plain_question ''q4'' ''essay_question'')"

definition numerical_sample :: question where
  "numerical_sample =
     (plain_question ''q5'' ''numerical_question'')
       \<lparr>q_numerical_min_html_xml := ''10'', q_numerical_max_html_xml := ''20''\<rparr>"

definition matching_sample :: question where
  "matching_sample = plain_question ''q6'' ''matching_question''"

text \<open>A reading of unsigned decimal numerals, for the samples.\<close>

definition read_decimal :: "string \<Rightarrow> int" where
  "read_decimal s = foldl (\<lambda>n c. 10 * n + (of_char c - 48)) 0 s"

definition no_outcomes :: "int outcomes" where
  "no_outcomes = \<lparr>SCORE = 0, FEEDBACK = None\<rparr>"

section \<open>The emitted text is the serialisation of the trees\<close>

text \<open>
  Blanks and line breaks aside, every template is the serialisation of its tree, and so is
  everything the generator appends for a text region or a question.
\<close>

lemma squeeze_append: "squeeze (a @ b) = squeeze a @ squeeze b"
  by (simp add: squeeze_def)

lemma squeeze_Nil: "squeeze [] = []"
  by (simp add: squeeze_def)

lemma squeeze_Cons:
  "squeeze (c # cs) = (if c \<noteq> CHR '' '' \<and> c \<noteq> CHR ''\<newline>'' then c # squeeze cs else squeeze cs)"
  by (simp add: squeeze_def)

lemmas squeeze_simps = squeeze_append squeeze_Nil squeeze_Cons

lemma squeeze_concat: "squeeze (concat xs) = concat (map squeeze xs)"
  by (induction xs) (simp_all add: squeeze_simps)

lemma squeeze_join: "squeeze (join ''\<newline>'' xs) = concat (map squeeze xs)"
  by (induction "''\<newline>''" xs rule: join.induct) (simp_all add: squeeze_simps)

lemma text_region_text_tree:
  "squeeze (concat (text_region_item r)) = squeeze (render (text_region_tree r))"
  by (simp add: text_region_item_def text_region_tree_def score_declaration_tree_def
      attributes_def squeeze_simps)

lemma correct_response_line_tree:
  "squeeze (correct_response_line v) =
   squeeze (render (Elem ''correctResponse'' [] [Elem ''value'' [] [Text v]]))"
  by (simp add: correct_response_line_def squeeze_simps attributes_def)

lemma response_declaration_body_tree:
  "squeeze (snd (snd (response_declaration q))) =
   concat (map (\<lambda>v. squeeze (render (Elem ''correctResponse'' [] [Elem ''value'' [] [Text v]])))
               (correct_values q))"
  unfolding response_declaration_def correct_values_def Let_def
  by (simp add: squeeze_join comp_def correct_response_line_tree squeeze_Nil)

lemma item_metadata_tree:
  "squeeze body = concat (map (\<lambda>t. squeeze (render t)) trees) \<Longrightarrow>
   squeeze (ITEM_METADATA bt cdn body points) =
   concat (map (\<lambda>t. squeeze (render t))
     [Elem ''responseDeclaration''
           [(''identifier'', ''RESPONSE''), (''baseType'', bt), (''cardinality'', cdn)] trees,
         score_declaration_tree,
         Elem ''outcomeDeclaration''
           [(''identifier'', ''MAXSCORE''), (''baseType'', ''float''),
            (''cardinality'', ''single'')]
           [Elem ''defaultValue'' []
              [Elem ''value'' [] [Text points]]]])"
  by (simp add: ITEM_METADATA_def score_declaration_tree_def attributes_def squeeze_simps squeeze_concat comp_def)

lemma choices_xml_tree:
  "squeeze (choices_xml q) = concat (map (\<lambda>c. squeeze (render (choice_tree c))) (q_choices q))"
  by (simp add: choices_xml_def squeeze_join comp_def ITEM_BODY_CHOICE_def choice_tree_def
      squeeze_simps attributes_def)

lemma item_body_tree:
  "map_sum id squeeze (item_body shuffle q) =
   map_sum id (\<lambda>i. squeeze (render (body_tree q i))) (interaction_tree shuffle q)"
  unfolding item_body_def interaction_tree_def body_tree_def
  by (simp add: ITEM_BODY_MCTF_def ITEM_BODY_MULTANS_def ITEM_BODY_SHORTANS_def
      ITEM_BODY_NUM_def ITEM_BODY_ESSAY_def ITEM_BODY_UPLOAD_def
      squeeze_simps squeeze_concat attributes_def choices_xml_tree comp_def)

lemma feedback_correct_tree:
  "squeeze (FEEDBACK_CORRECT f) = squeeze (render (feedback_tree f))"
  by (simp add: FEEDBACK_CORRECT_def feedback_tree_def base_value_def squeeze_simps attributes_def)

lemma feedback_incorrect_tree:
  "squeeze (FEEDBACK_INCORRECT f) = squeeze (render (else_tree f))"
  by (simp add: FEEDBACK_INCORRECT_def else_tree_def feedback_tree_def base_value_def
      squeeze_simps attributes_def)

lemma feedback_general_tree:
  "squeeze (FEEDBACK_GENERAL f) = squeeze (render (else_tree f))"
  by (simp add: FEEDBACK_GENERAL_def else_tree_def feedback_tree_def base_value_def
      squeeze_simps attributes_def)

lemma correct_feedback_of_tree:
  "squeeze (correct_feedback_of q) =
   concat (map (\<lambda>t. squeeze (render t)) (correct_feedback_trees q))"
  by (simp add: correct_feedback_of_def correct_feedback_trees_def feedback_correct_tree
      squeeze_Nil)

lemma incorrect_feedback_of_tree:
  "squeeze (incorrect_feedback_of q) =
   concat (map (\<lambda>t. squeeze (render t)) (incorrect_feedback_trees q))"
  by (simp add: incorrect_feedback_of_def incorrect_feedback_trees_def feedback_incorrect_tree
      squeeze_Nil)

lemma general_feedback_of_tree:
  "squeeze (general_feedback_of q) =
   concat (map (\<lambda>t. squeeze (render t)) (general_feedback_trees q))"
  by (simp add: general_feedback_of_def general_feedback_trees_def feedback_general_tree
      squeeze_Nil)

lemma match_condition_tree:
  "squeeze (MATCH_CONDITION v) = squeeze (render (match_tree ''identifier'' v))"
  by (simp add: MATCH_CONDITION_def match_tree_def response_variable_def base_value_def
      squeeze_simps attributes_def)

lemma varqual_condition_tree:
  "squeeze (VARQUAL_CONDITION v) = squeeze (render (match_tree ''string'' v))"
  by (simp add: VARQUAL_CONDITION_def match_tree_def response_variable_def base_value_def
      squeeze_simps attributes_def)


lemma match_conditions_tree:
  "squeeze (join ''\<newline>'' (map (\<lambda>c. MATCH_CONDITION (f c)) cs)) =
   concat (map (\<lambda>t. squeeze (render t)) (map (\<lambda>c. match_tree ''identifier'' (f c)) cs))"
  by (simp add: squeeze_join comp_def match_condition_tree)

lemma varqual_conditions_tree:
  "squeeze (join ''\<newline>'' (map (\<lambda>c. VARQUAL_CONDITION (f c)) cs)) =
   concat (map (\<lambda>t. squeeze (render t)) (map (\<lambda>c. match_tree ''string'' (f c)) cs))"
  by (simp add: squeeze_join comp_def varqual_condition_tree)

lemma response_processing_mctf_tree:
  assumes "squeeze cf = concat (map (\<lambda>t. squeeze (render t)) cft)"
    and "squeeze icf = concat (map (\<lambda>t. squeeze (render t)) ift)"
    and "squeeze gf = concat (map (\<lambda>t. squeeze (render t)) gft)"
  shows "squeeze (RESPONSE_PROCESSING_MCTF points cf icf gf) =
    squeeze (render (Elem ''responseProcessing'' []
      [Elem ''responseCondition'' []
         ([Elem ''responseIf'' []
             ([Elem ''match'' [] [response_variable, correct_operand], award_tree points] @ cft)]
          @ ift @ gft)]))"
  by (simp add: RESPONSE_PROCESSING_MCTF_def response_variable_def correct_operand_def
      award_tree_def score_variable_def base_value_def squeeze_simps squeeze_concat
      attributes_def comp_def assms)

lemma response_processing_multans_tree:
  assumes "squeeze mc = concat (map (\<lambda>t. squeeze (render t)) mct)"
    and "squeeze cf = concat (map (\<lambda>t. squeeze (render t)) cft)"
    and "squeeze icf = concat (map (\<lambda>t. squeeze (render t)) ift)"
    and "squeeze gf = concat (map (\<lambda>t. squeeze (render t)) gft)"
  shows "squeeze (RESPONSE_PROCESSING_MULTANS mc points cf icf gf) =
    squeeze (render (Elem ''responseProcessing'' []
      [Elem ''responseCondition'' []
         ([Elem ''responseIf'' [] ([Elem ''and'' [] mct, award_tree points] @ cft)]
          @ ift @ gft)]))"
  by (simp add: RESPONSE_PROCESSING_MULTANS_def
      award_tree_def score_variable_def base_value_def squeeze_simps squeeze_concat
      attributes_def comp_def assms)

lemma response_processing_shortans_tree:
  assumes "squeeze vc = concat (map (\<lambda>t. squeeze (render t)) vct)"
    and "squeeze cf = concat (map (\<lambda>t. squeeze (render t)) cft)"
    and "squeeze icf = concat (map (\<lambda>t. squeeze (render t)) ift)"
    and "squeeze gf = concat (map (\<lambda>t. squeeze (render t)) gft)"
  shows "squeeze (RESPONSE_PROCESSING_SHORTANS vc points cf icf gf) =
    squeeze (render (Elem ''responseProcessing'' []
      [Elem ''responseCondition'' []
         ([Elem ''responseIf'' [] ([Elem ''or'' [] vct, award_tree points] @ cft)]
          @ ift @ gft)]))"
  by (simp add: RESPONSE_PROCESSING_SHORTANS_def
      award_tree_def score_variable_def base_value_def squeeze_simps squeeze_concat
      attributes_def comp_def assms)

lemma response_processing_num_tree:
  assumes "squeeze cf = concat (map (\<lambda>t. squeeze (render t)) cft)"
    and "squeeze icf = concat (map (\<lambda>t. squeeze (render t)) ift)"
    and "squeeze gf = concat (map (\<lambda>t. squeeze (render t)) gft)"
  shows "squeeze (RESPONSE_PROCESSING_NUM lo hi points cf icf gf) =
    squeeze (render (Elem ''responseProcessing'' []
      [Elem ''responseCondition'' []
         ([Elem ''responseIf'' []
             ([Elem ''and'' []
                 [Elem ''gte'' [] [response_variable, base_value ''float'' lo],
                  Elem ''lte'' [] [response_variable, base_value ''float'' hi]],
               award_tree points] @ cft)]
          @ ift @ gft)]))"
  by (simp add: RESPONSE_PROCESSING_NUM_def response_variable_def
      award_tree_def score_variable_def base_value_def squeeze_simps squeeze_concat
      attributes_def comp_def assms)

lemma response_processing_essay_tree:
  assumes "squeeze gf = concat (map (\<lambda>t. squeeze (render t)) gft)"
  shows "squeeze (RESPONSE_PROCESSING_ESSAY gf) =
    squeeze (render (Elem ''responseProcessing'' []
      [Elem ''responseCondition'' []
         ([Elem ''responseIf'' []
             [Elem ''isNull'' [] [response_variable],
              Elem ''setOutcomeValue'' [(''identifier'', ''SCORE'')]
                [base_value ''float'' ''0'']]]
          @ gft)]))"
  by (simp add: RESPONSE_PROCESSING_ESSAY_def response_variable_def
      base_value_def squeeze_simps squeeze_concat attributes_def comp_def assms)

lemmas processing_templates_tree =
  response_processing_mctf_tree
    [OF correct_feedback_of_tree incorrect_feedback_of_tree general_feedback_of_tree]
  response_processing_multans_tree
    [OF match_conditions_tree correct_feedback_of_tree incorrect_feedback_of_tree
        general_feedback_of_tree]
  response_processing_shortans_tree
    [OF varqual_conditions_tree correct_feedback_of_tree incorrect_feedback_of_tree
        general_feedback_of_tree]
  response_processing_num_tree
    [OF correct_feedback_of_tree incorrect_feedback_of_tree general_feedback_of_tree]
  response_processing_essay_tree [OF general_feedback_of_tree]

lemma response_processing_tree:
  "map_sum id squeeze (response_processing q) =
   map_sum id (\<lambda>t. squeeze (render t)) (processing_tree q)"
  unfolding response_processing_def processing_tree_def condition_tree_def Let_def
    RESPONSE_PROCESSING_UPLOAD_def
  by (simp add: processing_templates_tree)

lemma metadata_tree:
  "squeeze (ITEM_METADATA (fst (response_declaration q)) (fst (snd (response_declaration q)))
      (snd (snd (response_declaration q))) points) =
   concat (map (\<lambda>t. squeeze (render t))
     [Elem ''responseDeclaration''
           [(''identifier'', ''RESPONSE''), (''baseType'', fst (response_declaration q)),
            (''cardinality'', fst (snd (response_declaration q)))]
           (map (\<lambda>v. Elem ''correctResponse'' [] [Elem ''value'' [] [Text v]])
                (correct_values q)),
         score_declaration_tree,
         Elem ''outcomeDeclaration''
           [(''identifier'', ''MAXSCORE''), (''baseType'', ''float''),
            (''cardinality'', ''single'')]
           [Elem ''defaultValue'' []
              [Elem ''value'' [] [Text points]]]])"
  by (rule item_metadata_tree) (simp add: response_declaration_body_tree comp_def)

text \<open>
  The strings appended for a question against the tree of the question: both raise the same
  exception, or the text is the serialisation of the tree.
\<close>

theorem question_item_tree:
  "map_sum id (\<lambda>xs. squeeze (concat xs)) (question_item quiz q) =
   map_sum id (\<lambda>t. squeeze (render t)) (question_tree quiz q)"
proof -
  define sh where "sh = (if shuffle_answers_xml quiz = ''true'' then ''true'' else ''false'')"
  have body: "map_sum id squeeze (item_body sh q) =
      map_sum id (\<lambda>i. squeeze (render (body_tree q i))) (interaction_tree sh q)"
    by (rule item_body_tree)
  have processing: "map_sum id squeeze (response_processing q) =
      map_sum id (\<lambda>t. squeeze (render t)) (processing_tree q)"
    by (rule response_processing_tree)
  show ?thesis
  proof (cases "interaction_tree sh q")
    case (Inl e)
    with body have "item_body sh q = Inl e"
      by (cases "item_body sh q") simp_all
    with Inl show ?thesis
      by (simp add: question_item_def question_tree_def sh_def [symmetric] Let_def
          split_beta)
  next
    case i: (Inr i)
    with body obtain b where b: "item_body sh q = Inr b"
      and b_eq: "squeeze b = squeeze (render (body_tree q i))"
      by (cases "item_body sh q") simp_all
    show ?thesis
    proof (cases "processing_tree q")
      case (Inl e)
      with processing have "response_processing q = Inl e"
        by (cases "response_processing q") simp_all
      with Inl i b show ?thesis
        by (simp add: question_item_def question_tree_def sh_def [symmetric] Let_def
            split_beta)
    next
      case p: (Inr p)
      with processing obtain s where s: "response_processing q = Inr s"
        and s_eq: "squeeze s = squeeze (render p)"
        by (cases "response_processing q") simp_all
      have "squeeze (concat ([START_ITEM (''qtimaker_question_'' @ q_id q) (q_title_xml q)]
              @ (if q_type q \<notin> set [''essay_question'', ''file_upload_question'']
                 then [ITEM_METADATA (fst (response_declaration q))
                         (fst (snd (response_declaration q)))
                         (snd (snd (response_declaration q)))
                         (str_int (q_points_possible q))]
                 else [])
              @ [b, s, END_ITEM]))
          = squeeze (render (Elem ''assessmentItem''
                      [(''identifier'', ''qtimaker_question_'' @ q_id q),
                       (''title'', q_title_xml q),
                       (''adaptive'', ''false''), (''timeDependent'', ''false'')]
                      (metadata_trees q @ [body_tree q i, p])))"
        by (simp add: metadata_trees_def metadata_tree b_eq s_eq squeeze_append
            squeeze_concat comp_def START_ITEM_def END_ITEM_def attributes_def squeeze_simps)
      with i p b s show ?thesis
        by (simp add: question_item_def question_tree_def sh_def [symmetric] Let_def
            split_beta)
    qed
  qed
qed

section \<open>Parts of the item of a question\<close>

lemma processing_tree_name:
  "processing_tree q = Inr p \<Longrightarrow> elem_name p = ''responseProcessing''"
  by (auto simp: processing_tree_def split: if_splits)

lemma metadata_trees_no_processing:
  "filter (\<lambda>c. elem_name c = ''responseProcessing'') (metadata_trees q) = []"
  by (simp add: metadata_trees_def score_declaration_tree_def)

lemma question_tree_parts:
  assumes "question_tree quiz q = Inr item"
  obtains i p where
    "interaction_tree (if shuffle_answers_xml quiz = ''true'' then ''true'' else ''false'') q = Inr i"
    "processing_tree q = Inr p"
    "item = Elem ''assessmentItem''
              [(''identifier'', ''qtimaker_question_'' @ q_id q), (''title'', q_title_xml q),
               (''adaptive'', ''false''), (''timeDependent'', ''false'')]
              (metadata_trees q @ [body_tree q i, p])"
  using assms by (auto simp: question_tree_def split: sum.splits)

lemma child_elems_processing:
  assumes "question_tree quiz q = Inr item"
  shows "map Inr (child_elems ''responseProcessing'' item) = [processing_tree q]"
proof -
  from assms obtain i p where p: "processing_tree q = Inr p"
    and item: "item = Elem ''assessmentItem''
              [(''identifier'', ''qtimaker_question_'' @ q_id q), (''title'', q_title_xml q),
               (''adaptive'', ''false''), (''timeDependent'', ''false'')]
              (metadata_trees q @ [body_tree q i, p])"
    by (rule question_tree_parts)
  from p have "elem_name p = ''responseProcessing''"
    by (rule processing_tree_name)
  then show ?thesis
    by (simp add: item child_elems_def metadata_trees_no_processing body_tree_def p)
qed

lemma correct_response_values:
  "concat (map (\<lambda>cr. map text_of (child_elems ''value'' cr))
      (child_elems ''correctResponse''
         (Elem n as (map (\<lambda>v. Elem ''correctResponse'' [] [Elem ''value'' [] [Text v]]) vs)))) = vs"
  by (induction vs) (simp_all add: child_elems_def)

lemma declared_correct_question:
  assumes "question_tree quiz q = Inr item"
  shows "declared_correct item =
    (if q_type q \<in> set [''essay_question'', ''file_upload_question''] then []
     else correct_values q)"
proof -
  from assms obtain i p where p: "processing_tree q = Inr p"
    and item: "item = Elem ''assessmentItem''
              [(''identifier'', ''qtimaker_question_'' @ q_id q), (''title'', q_title_xml q),
               (''adaptive'', ''false''), (''timeDependent'', ''false'')]
              (metadata_trees q @ [body_tree q i, p])"
    by (rule question_tree_parts)
  from p have name: "elem_name p = ''responseProcessing''"
    by (rule processing_tree_name)
  have "child_elems ''responseDeclaration'' item =
      (if q_type q \<in> set [''essay_question'', ''file_upload_question''] then []
       else [Elem ''responseDeclaration''
           [(''identifier'', ''RESPONSE''), (''baseType'', fst (response_declaration q)),
            (''cardinality'', fst (snd (response_declaration q)))]
           (map (\<lambda>v. Elem ''correctResponse'' [] [Elem ''value'' [] [Text v]])
                (correct_values q))])"
    by (simp add: item child_elems_def metadata_trees_def score_declaration_tree_def
        body_tree_def name)
  then show ?thesis
    by (simp add: declared_correct_def correct_response_values)
qed


lemma item_condition_shape:
  assumes "child_elems ''responseProcessing'' item =
      [Elem n as [Elem ''responseCondition'' bs (Elem ''responseIf'' cs (cond # rules) # elses)]]"
    and "filter (\<lambda>c. elem_name c = ''responseIf'') elses = []"
  shows "item_condition item = [cond]"
  using assms by (simp add: item_condition_def child_elems_def)

lemma feedback_trees_not_if:
  "filter (\<lambda>c. elem_name c = ''responseIf'')
     (incorrect_feedback_trees q @ general_feedback_trees q) = []"
  "filter (\<lambda>c. elem_name c = ''responseIf'') (general_feedback_trees q) = []"
  by (simp_all add: incorrect_feedback_trees_def general_feedback_trees_def else_tree_def)

lemma processing_tree_scored:
  assumes "q_type q \<in> set scored_types"
  shows "processing_tree q =
    Inr (Elem ''responseProcessing'' []
           [Elem ''responseCondition'' []
              (Elem ''responseIf'' []
                 (condition_tree q # award_tree (str_int (q_points_possible q))
                  # correct_feedback_trees q)
               # incorrect_feedback_trees q @ general_feedback_trees q)])"
  using assms by (auto simp: processing_tree_def scored_types_def)

lemma processing_tree_unscored:
  assumes "q_type q \<in> set unscored_types"
  shows "processing_tree q =
    Inr (Elem ''responseProcessing'' []
           [Elem ''responseCondition'' []
              (Elem ''responseIf'' []
                 [null_check_tree,
                  Elem ''setOutcomeValue'' [(''identifier'', ''SCORE'')]
                    [base_value ''float'' ''0'']]
               # general_feedback_trees q)])"
  using assms by (auto simp: processing_tree_def unscored_types_def null_check_tree_def)

lemma child_elems_processing_scored:
  assumes "question_tree quiz q = Inr item" and "q_type q \<in> set scored_types"
  shows "child_elems ''responseProcessing'' item =
      [Elem ''responseProcessing'' []
         [Elem ''responseCondition'' []
            (Elem ''responseIf'' []
               (condition_tree q # award_tree (str_int (q_points_possible q))
                # correct_feedback_trees q)
             # incorrect_feedback_trees q @ general_feedback_trees q)]]"
proof -
  from assms(1) have "map Inr (child_elems ''responseProcessing'' item) = [processing_tree q]"
    by (rule child_elems_processing)
  with assms(2) show ?thesis
    by (cases "child_elems ''responseProcessing'' item") (auto simp: processing_tree_scored)
qed

lemma child_elems_processing_unscored:
  assumes "question_tree quiz q = Inr item" and "q_type q \<in> set unscored_types"
  shows "child_elems ''responseProcessing'' item =
      [Elem ''responseProcessing'' []
         [Elem ''responseCondition'' []
            (Elem ''responseIf'' []
               [null_check_tree,
                Elem ''setOutcomeValue'' [(''identifier'', ''SCORE'')]
                  [base_value ''float'' ''0'']]
             # general_feedback_trees q)]]"
proof -
  from assms(1) have "map Inr (child_elems ''responseProcessing'' item) = [processing_tree q]"
    by (rule child_elems_processing)
  with assms(2) show ?thesis
    by (cases "child_elems ''responseProcessing'' item") (auto simp: processing_tree_unscored)
qed

lemma item_condition_scored:
  assumes "question_tree quiz q = Inr item" and "q_type q \<in> set scored_types"
  shows "item_condition item = [condition_tree q]"
  by (rule item_condition_shape [OF child_elems_processing_scored [OF assms]
        feedback_trees_not_if(1)])

lemma item_condition_unscored:
  assumes "question_tree quiz q = Inr item" and "q_type q \<in> set unscored_types"
  shows "item_condition item = [null_check_tree]"
  by (rule item_condition_shape [OF child_elems_processing_unscored [OF assms]
        feedback_trees_not_if(2)])

lemma process_response_shape:
  assumes "child_elems ''responseProcessing'' item =
      [Elem n as [Elem ''responseCondition'' bs (Elem ''responseIf'' cs (cond # rules) # elses)]]"
  shows "process_response num item r out =
    (if holds num (declared_correct item) r cond then fold (set_outcome num) rules out
     else fold (run_else num) elses out)"
  using assms by (simp add: process_response_def)

lemma question_tree_defined:
  assumes "q_type q \<in> set encoded_types"
  obtains item where "question_tree quiz q = Inr item"
  using assms
  by (auto simp: encoded_types_def scored_types_def unscored_types_def question_tree_def
      interaction_tree_def processing_tree_def)

section \<open>Conditions and outcomes\<close>

lemma set_outcome_award:
  "set_outcome num (award_tree points) out = out\<lparr>SCORE := SCORE out + num points\<rparr>"
  by (simp add: award_tree_def base_value_def)

lemma set_outcome_feedback:
  "set_outcome num (feedback_tree f) out = out\<lparr>FEEDBACK := Some f\<rparr>"
  by (simp add: feedback_tree_def base_value_def)

lemma set_outcome_zero:
  "set_outcome num (Elem ''setOutcomeValue'' [(''identifier'', ''SCORE'')]
       [base_value ''float'' ''0'']) out = out\<lparr>SCORE := num ''0''\<rparr>"
  by (simp add: base_value_def)

lemma run_else_else_tree:
  "run_else num (else_tree f) out = out\<lparr>FEEDBACK := Some f\<rparr>"
  by (simp add: else_tree_def set_outcome_feedback)

lemma holds_match_correct:
  "holds num correct r (Elem ''match'' [] [response_variable, correct_operand]) =
   matches_correct r correct"
  by (simp add: holds.simps response_variable_def correct_operand_def)

lemma holds_match_tree:
  "holds num correct r (match_tree bt v) = matches_value r v"
  by (simp add: holds.simps match_tree_def response_variable_def base_value_def)

lemma holds_gte:
  "holds num correct r (Elem ''gte'' [] [response_variable, base_value bt v]) =
   compare_num num (\<lambda>x y. y \<le> x) r v"
  by (simp add: holds.simps response_variable_def base_value_def)

lemma holds_lte:
  "holds num correct r (Elem ''lte'' [] [response_variable, base_value bt v]) =
   compare_num num (\<lambda>x y. x \<le> y) r v"
  by (simp add: holds.simps response_variable_def base_value_def)

lemma holds_null_check:
  "holds num correct r null_check_tree = (r = Null)"
  by (simp add: holds.simps null_check_tree_def)


lemma fold_feedback_score:
  "SCORE (fold (set_outcome num) (correct_feedback_trees q) out) = SCORE out"
  by (simp add: correct_feedback_trees_def set_outcome_feedback)

lemma fold_else_score:
  "SCORE (fold (run_else num) (incorrect_feedback_trees q @ general_feedback_trees q) out)
   = SCORE out"
  by (simp add: incorrect_feedback_trees_def general_feedback_trees_def run_else_else_tree)

lemma fold_general_score:
  "SCORE (fold (run_else num) (general_feedback_trees q) out) = SCORE out"
  by (simp add: general_feedback_trees_def run_else_else_tree)

lemma fold_else_feedback:
  "FEEDBACK (fold (run_else num) (incorrect_feedback_trees q @ general_feedback_trees q) out)
   = (if q_feedback_raw q \<noteq> None then Some (q_feedback_html_xml q)
      else if q_incorrect_feedback_raw q \<noteq> None then Some (q_incorrect_feedback_html_xml q)
      else FEEDBACK out)"
  by (simp add: incorrect_feedback_trees_def general_feedback_trees_def run_else_else_tree)

lemma question_fires_scored:
  assumes "q_type q \<in> set scored_types"
  shows "question_fires num quiz q r = holds num (correct_values q) r (condition_tree q)"
proof -
  from assms have "q_type q \<in> set encoded_types"
    by (simp add: encoded_types_def)
  then obtain item where item: "question_tree quiz q = Inr item"
    by (rule question_tree_defined)
  from assms have "q_type q \<notin> set [''essay_question'', ''file_upload_question'']"
    by (auto simp: scored_types_def)
  with item have "declared_correct item = correct_values q"
    by (simp add: declared_correct_question del: set_simps)
  with item show ?thesis
    by (simp add: question_fires_def fires_def item_condition_scored [OF item assms])
qed

lemma question_fires_unscored:
  assumes "q_type q \<in> set unscored_types"
  shows "question_fires num quiz q r = (r = Null)"
proof -
  from assms have "q_type q \<in> set encoded_types"
    by (simp add: encoded_types_def)
  then obtain item where item: "question_tree quiz q = Inr item"
    by (rule question_tree_defined)
  then show ?thesis
    by (simp add: question_fires_def fires_def item_condition_unscored [OF item assms]
        holds_null_check)
qed

lemma question_outcome_scored:
  assumes "q_type q \<in> set scored_types"
  shows "question_outcome num quiz q r out =
    (if question_fires num quiz q r
     then fold (set_outcome num) (correct_feedback_trees q)
            (out\<lparr>SCORE := SCORE out + num (str_int (q_points_possible q))\<rparr>)
     else fold (run_else num) (incorrect_feedback_trees q @ general_feedback_trees q) out)"
proof -
  from assms have "q_type q \<in> set encoded_types"
    by (simp add: encoded_types_def)
  then obtain item where item: "question_tree quiz q = Inr item"
    by (rule question_tree_defined)
  from assms have "q_type q \<notin> set [''essay_question'', ''file_upload_question'']"
    by (auto simp: scored_types_def)
  with item have correct: "declared_correct item = correct_values q"
    by (simp add: declared_correct_question del: set_simps)
  show ?thesis
    unfolding question_fires_scored [OF assms]
    by (simp add: question_outcome_def item correct set_outcome_award
        process_response_shape [OF child_elems_processing_scored [OF item assms]])
qed

lemma question_outcome_unscored:
  assumes "q_type q \<in> set unscored_types"
  shows "question_outcome num quiz q r out =
    (if r = Null then out\<lparr>SCORE := num ''0''\<rparr>
     else fold (run_else num) (general_feedback_trees q) out)"
proof -
  from assms have "q_type q \<in> set encoded_types"
    by (simp add: encoded_types_def)
  then obtain item where item: "question_tree quiz q = Inr item"
    by (rule question_tree_defined)
  show ?thesis
    by (simp add: question_outcome_def item set_outcome_zero holds_null_check
        process_response_shape [OF child_elems_processing_unscored [OF item assms]])
qed

lemma question_score_scored:
  assumes "q_type q \<in> set scored_types"
  shows "SCORE (question_outcome num quiz q r out) =
    (if question_fires num quiz q r then SCORE out + num (str_int (q_points_possible q))
     else SCORE out)"
  by (simp add: question_outcome_scored [OF assms] fold_feedback_score fold_else_score
      del: fold_append)

section \<open>The main loop\<close>

lemma emit_all_accumulates:
  "emit_all quiz xs xml = map_sum id (\<lambda>new. xml @ new) (emit_all quiz xs [])"
proof (induction xs arbitrary: xml)
  case Nil
  show ?case by simp
next
  case (Cons x xs)
  show ?case
  proof (cases "emit_entry quiz x")
    case (Inl e)
    then show ?thesis by simp
  next
    case (Inr new)
    have "emit_all quiz (x # xs) xml = emit_all quiz xs (xml @ new)"
      using Inr by simp
    also have "\<dots> = map_sum id (\<lambda>rest. (xml @ new) @ rest) (emit_all quiz xs [])"
      by (rule Cons.IH)
    also have "\<dots> = map_sum id (\<lambda>rest. xml @ rest) (emit_all quiz xs new)"
      by (subst (2) Cons.IH) (cases "emit_all quiz xs []"; simp)
    also have "emit_all quiz xs new = emit_all quiz (x # xs) []"
      using Inr by simp
    finally show ?thesis .
  qed
qed

lemma assessment_v2_layout:
  "assessment_v2 quiz a t =
   map_sum id
     (\<lambda>items. BEFORE_ITEMS a t @ concat items
        @ AFTER_ITEMS (str_int (total_points (questions_and_delims quiz) 0)))
     (emit_all quiz (questions_and_delims quiz) [])"
  unfolding assessment_v2_def Let_def
  by (subst emit_all_accumulates) (cases "emit_all quiz (questions_and_delims quiz) []"; simp)

lemma emit_all_Inr:
  "emit_all quiz xs [] = Inr items \<Longrightarrow> list_all (\<lambda>x. \<not> isl (emit_entry quiz x)) xs"
proof (induction xs arbitrary: items)
  case Nil
  show ?case by simp
next
  case (Cons x xs)
  from Cons.prems obtain new where new: "emit_entry quiz x = Inr new"
    by (cases "emit_entry quiz x") simp_all
  with Cons.prems have "emit_all quiz xs new = Inr items"
    by simp
  then have "map_sum id (\<lambda>rest. new @ rest) (emit_all quiz xs []) = Inr items"
    by (subst emit_all_accumulates [symmetric])
  then obtain rest where "emit_all quiz xs [] = Inr rest"
    by (cases "emit_all quiz xs []") simp_all
  then have "list_all (\<lambda>x. \<not> isl (emit_entry quiz x)) xs"
    by (rule Cons.IH)
  with new show ?case by simp
qed

lemma emit_all_Inl:
  "emit_all quiz xs xml = Inl e \<Longrightarrow> \<exists>x \<in> set xs. emit_entry quiz x = Inl e"
proof (induction xs arbitrary: xml)
  case Nil
  then show ?case by simp
next
  case (Cons x xs)
  show ?case
  proof (cases "emit_entry quiz x")
    case (Inl e')
    with Cons.prems show ?thesis by simp
  next
    case (Inr new)
    with Cons.prems have "emit_all quiz xs (xml @ new) = Inl e" by simp
    then have "\<exists>x \<in> set xs. emit_entry quiz x = Inl e" by (rule Cons.IH)
    then show ?thesis by auto
  qed
qed

lemma emit_all_success:
  "list_all (\<lambda>x. \<not> isl (emit_entry quiz x)) xs \<Longrightarrow> \<not> isl (emit_all quiz xs xml)"
proof (induction xs arbitrary: xml)
  case Nil
  show ?case by simp
next
  case (Cons x xs)
  then obtain new where "emit_entry quiz x = Inr new" and "list_all (\<lambda>x. \<not> isl (emit_entry quiz x)) xs"
    by (cases "emit_entry quiz x") simp_all
  with Cons.IH [of "xml @ new"] show ?case by simp
qed

lemma question_item_unknown_type:
  "q_type q \<notin> set encoded_types \<Longrightarrow> question_item quiz q = Inl ValueError"
  by (simp add: encoded_types_def scored_types_def unscored_types_def question_item_def
      item_body_def Let_def split_beta)

lemma question_item_encoded_type:
  "q_type q \<in> set encoded_types \<Longrightarrow> \<not> isl (question_item quiz q)"
  by (auto simp: encoded_types_def scored_types_def unscored_types_def question_item_def
      item_body_def response_processing_def Let_def split_beta)

lemma emit_entry_error:
  "emit_entry quiz x = Inl e \<Longrightarrow>
   (x = Other \<and> e = TypeError) \<or> (\<exists>q. x = Question q \<and> e = ValueError)"
  by (cases x)
    (auto simp: question_item_def Let_def split_beta item_body_def response_processing_def
      split: sum.splits if_splits)

section \<open>The total\<close>

text \<open>
  The total of the first loop is the specification's total plus the points of the questions
  that groups enclose.
\<close>

lemma total_points_acc:
  "total_points xs n = n + total_points xs 0"
proof (induction xs arbitrary: n)
  case Nil
  show ?case by simp
next
  case (Cons x xs)
  show ?case
  proof (cases x)
    case (Question q)
    have "total_points (x # xs) n = (n + q_points_possible q) + total_points xs 0"
      unfolding Question by (simp add: Cons.IH [of "n + q_points_possible q"])
    also have "\<dots> = n + total_points (x # xs) 0"
      unfolding Question by (simp add: Cons.IH [of "q_points_possible q"])
    finally show ?thesis .
  next
    case (GroupStart g)
    let ?p = "g_points_per_question g * g_pick g"
    have "total_points (x # xs) n = (n + ?p) + total_points xs 0"
      unfolding GroupStart by (simp add: Cons.IH [of "n + ?p"])
    also have "\<dots> = n + total_points (x # xs) 0"
      unfolding GroupStart by (simp add: Cons.IH [of ?p])
    finally show ?thesis .
  next
    case GroupEnd
    then show ?thesis by (simp add: Cons.IH [of n])
  next
    case (TextRegion r)
    then show ?thesis by (simp add: Cons.IH [of n])
  next
    case Other
    then show ?thesis by (simp add: Cons.IH [of n])
  qed
qed

lemma total_points_split:
  "total_points xs 0 = spec_total in_group xs + enclosed_points in_group xs"
proof (induction xs arbitrary: in_group)
  case Nil
  show ?case by simp
next
  case (Cons x xs)
  show ?case
  proof (cases x)
    case (Question q)
    have "total_points (x # xs) 0 = q_points_possible q + total_points xs 0"
      unfolding Question by (simp add: total_points_acc [of xs "q_points_possible q"])
    then show ?thesis
      unfolding Question by (simp add: Cons.IH [of in_group])
  next
    case (GroupStart g)
    have "total_points (x # xs) 0 = g_points_per_question g * g_pick g + total_points xs 0"
      unfolding GroupStart
      by (simp add: total_points_acc [of xs "g_points_per_question g * g_pick g"])
    then show ?thesis
      unfolding GroupStart by (simp add: Cons.IH [of True])
  next
    case GroupEnd
    then show ?thesis by (simp add: Cons.IH [of False])
  next
    case (TextRegion r)
    then show ?thesis by (simp add: Cons.IH [of in_group])
  next
    case Other
    then show ?thesis by (simp add: Cons.IH [of in_group])
  qed
qed

lemma total_points_text_region:
  "total_points (xs @ TextRegion r # ys) n = total_points (xs @ ys) n"
proof (induction xs arbitrary: n)
  case Nil
  show ?case by simp
next
  case (Cons x xs)
  then show ?case by (cases x) simp_all
qed

section \<open>Choices, declared responses and else-branches of a question\<close>

lemma metadata_trees_no_body:
  "filter (\<lambda>c. elem_name c = ''itemBody'') (metadata_trees q) = []"
  by (simp add: metadata_trees_def score_declaration_tree_def)

lemma choice_interactions_question:
  assumes "question_tree quiz q = Inr item"
  shows "map Inr (choice_interactions item) =
    (if q_type q \<in> set [''true_false_question'', ''multiple_choice_question'',
                          ''multiple_answers_question'']
     then [interaction_tree (if shuffle_answers_xml quiz = ''true'' then ''true'' else ''false'') q]
     else [])"
proof -
  from assms obtain i p
    where i: "interaction_tree (if shuffle_answers_xml quiz = ''true'' then ''true'' else ''false'') q = Inr i"
    and p: "processing_tree q = Inr p"
    and item: "item = Elem ''assessmentItem''
              [(''identifier'', ''qtimaker_question_'' @ q_id q), (''title'', q_title_xml q),
               (''adaptive'', ''false''), (''timeDependent'', ''false'')]
              (metadata_trees q @ [body_tree q i, p])"
    by (rule question_tree_parts)
  from p have "elem_name p = ''responseProcessing''"
    by (rule processing_tree_name)
  then have body: "child_elems ''itemBody'' item = [body_tree q i]"
    by (simp add: item child_elems_def metadata_trees_no_body body_tree_def)
  from i show ?thesis
    unfolding choice_interactions_def body
    by (auto simp: interaction_tree_def body_tree_def child_elems_def split: if_splits)
qed

lemma simple_choices:
  "concat (map (attribute ''identifier'')
     (child_elems ''simpleChoice'' (Elem n as (map choice_tree cs)))) =
   map (\<lambda>c. ''qtimaker_choice_'' @ c_id c) cs"
  by (induction cs) (simp_all add: child_elems_def choice_tree_def)

lemma question_offered_choices_eq:
  assumes "q_type q \<in> set [''true_false_question'', ''multiple_choice_question'',
                            ''multiple_answers_question'']"
  shows "question_offered_choices quiz q = map (\<lambda>c. ''qtimaker_choice_'' @ c_id c) (q_choices q)"
proof -
  from assms have "q_type q \<in> set encoded_types"
    by (auto simp: encoded_types_def scored_types_def)
  then obtain item where item: "question_tree quiz q = Inr item"
    by (rule question_tree_defined)
  from assms choice_interactions_question [OF item]
  obtain i where ci: "choice_interactions item = [i]"
    and i: "interaction_tree (if shuffle_answers_xml quiz = ''true'' then ''true'' else ''false'') q = Inr i"
    by (cases "choice_interactions item") (auto simp del: set_simps)
  from i assms obtain n as where "i = Elem n as (map choice_tree (q_choices q))"
    by (auto simp: interaction_tree_def split: if_splits)
  with ci item show ?thesis
    by (simp add: question_offered_choices_def offered_choices_def simple_choices)
qed

lemma question_max_choices_eq:
  assumes "q_type q = ''multiple_answers_question''"
  shows "question_max_choices quiz q = [str_int (int (length (q_choices q)))]"
proof -
  from assms have "q_type q \<in> set encoded_types"
    by (auto simp: encoded_types_def scored_types_def)
  then obtain item where item: "question_tree quiz q = Inr item"
    by (rule question_tree_defined)
  from assms choice_interactions_question [OF item]
  obtain i where ci: "choice_interactions item = [i]"
    and i: "interaction_tree (if shuffle_answers_xml quiz = ''true'' then ''true'' else ''false'') q = Inr i"
    by (cases "choice_interactions item") auto
  from i assms obtain sh where "i = Elem ''choiceInteraction''
               [(''responseIdentifier'', ''RESPONSE''), (''shuffle'', sh),
                (''maxChoices'', str_int (int (length (q_choices q))))]
               (map choice_tree (q_choices q))"
    by (auto simp: interaction_tree_def split: if_splits)
  with ci item show ?thesis
    by (simp add: question_max_choices_def max_choices_def)
qed

lemma question_declared_correct_eq:
  assumes "q_type q \<in> set scored_types"
  shows "question_declared_correct quiz q = correct_values q"
proof -
  from assms have "q_type q \<in> set encoded_types"
    by (auto simp: encoded_types_def)
  then obtain item where item: "question_tree quiz q = Inr item"
    by (rule question_tree_defined)
  from assms have "q_type q \<notin> set [''essay_question'', ''file_upload_question'']"
    by (auto simp: scored_types_def)
  with item show ?thesis
    by (simp add: question_declared_correct_def declared_correct_question del: set_simps)
qed

lemma else_branches_shape:
  assumes "child_elems ''responseProcessing'' item =
      [Elem n as [Elem ''responseCondition'' bs (Elem ''responseIf'' cs rules # elses)]]"
  shows "else_branches item = filter (\<lambda>c. elem_name c = ''responseElse'') elses"
  using assms by (simp add: else_branches_def child_elems_def)

lemma feedback_trees_else:
  "filter (\<lambda>c. elem_name c = ''responseElse'')
     (incorrect_feedback_trees q @ general_feedback_trees q) =
   incorrect_feedback_trees q @ general_feedback_trees q"
  "filter (\<lambda>c. elem_name c = ''responseElse'') (general_feedback_trees q) =
   general_feedback_trees q"
  by (simp_all add: incorrect_feedback_trees_def general_feedback_trees_def else_tree_def)

lemma question_else_branches_scored:
  assumes "q_type q \<in> set scored_types"
  shows "question_else_branches quiz q = incorrect_feedback_trees q @ general_feedback_trees q"
proof -
  from assms have "q_type q \<in> set encoded_types"
    by (auto simp: encoded_types_def)
  then obtain item where item: "question_tree quiz q = Inr item"
    by (rule question_tree_defined)
  show ?thesis
    by (simp add: question_else_branches_def item feedback_trees_else
        else_branches_shape [OF child_elems_processing_scored [OF item assms]]
        del: filter_append)
qed

lemma question_else_branches_unscored:
  assumes "q_type q \<in> set unscored_types"
  shows "question_else_branches quiz q = general_feedback_trees q"
proof -
  from assms have "q_type q \<in> set encoded_types"
    by (auto simp: encoded_types_def)
  then obtain item where item: "question_tree quiz q = Inr item"
    by (rule question_tree_defined)
  show ?thesis
    by (simp add: question_else_branches_def item feedback_trees_else
        else_branches_shape [OF child_elems_processing_unscored [OF item assms]])
qed

text \<open>The identifiers of the generated items carry the prefix of their kind.\<close>

lemma text_region_identifier:
  "attribute ''identifier'' (text_region_tree r) = [''qtimaker_text_'' @ t_id r]"
  by (simp add: text_region_tree_def)

lemma question_identifier:
  assumes "question_tree quiz q = Inr item"
  shows "attribute ''identifier'' item = [''qtimaker_question_'' @ q_id q]"
  using assms by (rule question_tree_parts) simp

lemma sample_types:
  "q_type mc_sample \<in> set scored_types"
  "q_type tf_sample \<in> set scored_types"
  "q_type ma_sample \<in> set scored_types"
  "q_type numerical_sample \<in> set scored_types"
  "q_type essay_sample \<in> set unscored_types"
  "q_type matching_sample \<notin> set encoded_types"
  by (simp_all add: mc_sample_def tf_sample_def ma_sample_def numerical_sample_def
      essay_sample_def matching_sample_def with_feedback_def plain_question_def
      scored_types_def unscored_types_def encoded_types_def)

section \<open>When the condition of a question fires\<close>

lemmas sample_defs = mc_sample_def tf_sample_def ma_sample_def numerical_sample_def
  essay_sample_def matching_sample_def with_feedback_def plain_question_def plain_choice_def
  plain_quiz_def

lemma question_fires_choice:
  assumes "q_type q \<in> set [''true_false_question'', ''multiple_choice_question'']"
  shows "question_fires num quiz q r =
    matches_correct r (map c_id (filter c_correct (q_choices q)))"
proof -
  from assms have scored: "q_type q \<in> set scored_types"
    by (auto simp: scored_types_def)
  from assms show ?thesis
    unfolding question_fires_scored [OF scored]
    by (auto simp: condition_tree_def correct_values_def holds_match_correct)
qed

lemma holds_and:
  "holds num correct r (Elem ''and'' as cs) = list_all (holds num correct r) cs"
  by (simp add: holds.simps)

lemma question_fires_multiple_answers:
  assumes "q_type q = ''multiple_answers_question''"
  shows "question_fires num quiz q r = list_all (matches_value r) (correct_identifiers q)"
proof -
  from assms have scored: "q_type q \<in> set scored_types"
    by (auto simp: scored_types_def)
  from assms show ?thesis
    unfolding question_fires_scored [OF scored]
    by (auto simp: condition_tree_def holds_and holds_match_tree correct_identifiers_def
        list_all_iff)
qed

lemma question_fires_numerical:
  assumes "q_type q = ''numerical_question''"
  shows "question_fires num quiz q r =
    (compare_num num (\<lambda>x y. y \<le> x) r (q_numerical_min_html_xml q) \<and>
     compare_num num (\<lambda>x y. x \<le> y) r (q_numerical_max_html_xml q))"
proof -
  from assms have scored: "q_type q \<in> set scored_types"
    by (auto simp: scored_types_def)
  from assms show ?thesis
    unfolding question_fires_scored [OF scored]
    by (simp add: condition_tree_def holds_and holds_gte holds_lte)
qed

section \<open>The claims\<close>

text \<open>
  Claim C1: the maximum-score default written for a quiz is the sum of the points of the
  standalone questions plus, for each group, points per question times pick; a group with
  pick 3 and 2 points per question around five questions contributes exactly 6. The
  generator's first loop adds the points of every question, also of those a group
  encloses, on top of the group's own contribution: for the sample pool it writes 16 where
  the specification's total is 6. The general relation between the two totals is
  \<open>total_points_split\<close>.
\<close>

theorem pool_questions_counted_twice:
  \<open>total_points (questions_and_delims pool_quiz) 0 = 16
    \<and> (\<exists>items. assessment_v2 pool_quiz ''pool'' ''Pool'' =
         Inr (BEFORE_ITEMS ''pool'' ''Pool'' @ items @ AFTER_ITEMS ''16''))
    \<and> spec_max_score pool_quiz = 6\<close>
proof (intro conjI)
  show total: "total_points (questions_and_delims pool_quiz) 0 = 16"
    by (simp add: pool_quiz_def plain_quiz_def plain_question_def)
  have "list_all (\<lambda>x. \<not> isl (emit_entry pool_quiz x)) (questions_and_delims pool_quiz)"
    by (simp add: pool_quiz_def plain_quiz_def question_item_encoded_type encoded_types_def
        scored_types_def unscored_types_def plain_question_def)
  then have "\<not> isl (emit_all pool_quiz (questions_and_delims pool_quiz) [])"
    by (rule emit_all_success)
  then obtain items where "emit_all pool_quiz (questions_and_delims pool_quiz) [] = Inr items"
    by (cases "emit_all pool_quiz (questions_and_delims pool_quiz) []") simp_all
  moreover note total
  moreover have "str_int 16 = ''16''"
    by (simp add: str_int_def str_nat.simps)
  ultimately have "assessment_v2 pool_quiz ''pool'' ''Pool'' =
      Inr (BEFORE_ITEMS ''pool'' ''Pool'' @ concat items @ AFTER_ITEMS ''16'')"
    by (simp add: assessment_v2_layout)
  then show "\<exists>items. assessment_v2 pool_quiz ''pool'' ''Pool'' =
      Inr (BEFORE_ITEMS ''pool'' ''Pool'' @ items @ AFTER_ITEMS ''16'')"
    by blast
  show "spec_max_score pool_quiz = 6"
    by (simp add: spec_max_score_def pool_quiz_def plain_quiz_def plain_question_def)
qed

text \<open>
  Claim C2: every emitted identifier, the correct-response values included, carries the
  prefix of its kind, so that none equals a bare model id. The response declaration of a
  choice question lists the correct choice under its bare id, while the item body offers
  the same choice under the prefixed identifier.
\<close>

theorem correct_response_bare_choice_id:
  \<open>response_declaration mc_sample =
     (''identifier'', ''single'',
      ''            <correctResponse><value>a</value></correctResponse>'')
   \<and> choices_xml mc_sample =
       join ''\<newline>''
         [ITEM_BODY_CHOICE ''qtimaker_choice_a'' ''choice'',
          ITEM_BODY_CHOICE ''qtimaker_choice_b'' ''choice'',
          ITEM_BODY_CHOICE ''qtimaker_choice_c'' ''choice'',
          ITEM_BODY_CHOICE ''qtimaker_choice_d'' ''choice'']
   \<and> question_declared_correct quiz mc_sample = [''a'']
   \<and> question_offered_choices quiz mc_sample =
       [''qtimaker_choice_a'', ''qtimaker_choice_b'', ''qtimaker_choice_c'',
        ''qtimaker_choice_d'']\<close>
proof (intro conjI)
  show "response_declaration mc_sample =
     (''identifier'', ''single'',
      ''            <correctResponse><value>a</value></correctResponse>'')"
    by (simp add: response_declaration_def correct_response_line_def sample_defs)
  show "choices_xml mc_sample =
       join ''\<newline>''
         [ITEM_BODY_CHOICE ''qtimaker_choice_a'' ''choice'',
          ITEM_BODY_CHOICE ''qtimaker_choice_b'' ''choice'',
          ITEM_BODY_CHOICE ''qtimaker_choice_c'' ''choice'',
          ITEM_BODY_CHOICE ''qtimaker_choice_d'' ''choice'']"
    by (simp add: choices_xml_def sample_defs)
  show "question_declared_correct quiz mc_sample = [''a'']"
    by (subst question_declared_correct_eq [OF sample_types(1)])
      (simp add: correct_values_def sample_defs)
  have "q_type mc_sample \<in> set [''true_false_question'', ''multiple_choice_question'',
                            ''multiple_answers_question'']"
    by (simp add: sample_defs)
  then show "question_offered_choices quiz mc_sample =
       [''qtimaker_choice_a'', ''qtimaker_choice_b'', ''qtimaker_choice_c'',
        ''qtimaker_choice_d'']"
    by (subst question_offered_choices_eq) (simp_all add: sample_defs del: set_simps)
qed

text \<open>
  Claim C3: for a true/false or multiple-choice question the declared correct response is
  the identifier of the correct choice as the item body names it, and the response
  condition awards the points exactly when the response is that identifier. In the
  generated item the declared value is the bare id, which no offered choice carries:
  selecting the correct choice does not fire the condition and leaves the score as it was.
\<close>

theorem correct_choice_never_matches:
  \<open>response_declaration tf_sample =
     (''identifier'', ''single'',
      ''            <correctResponse><value>t</value></correctResponse>'')
   \<and> response_processing tf_sample = Inr (RESPONSE_PROCESSING_MCTF ''2'' [] [] [])
   \<and> question_declared_correct quiz tf_sample = [''t'']
   \<and> question_offered_choices quiz tf_sample = [''qtimaker_choice_t'', ''qtimaker_choice_f'']
   \<and> \<not> question_fires num quiz tf_sample (Single ''qtimaker_choice_t'')
   \<and> \<not> question_fires num quiz tf_sample (Single ''qtimaker_choice_f'')
   \<and> SCORE (question_outcome num quiz tf_sample (Single ''qtimaker_choice_t'') out) = SCORE out\<close>
proof (intro conjI)
  show "response_declaration tf_sample =
     (''identifier'', ''single'',
      ''            <correctResponse><value>t</value></correctResponse>'')"
    by (simp add: response_declaration_def correct_response_line_def sample_defs)
  show "response_processing tf_sample = Inr (RESPONSE_PROCESSING_MCTF ''2'' [] [] [])"
    by (simp add: response_processing_def correct_feedback_of_def incorrect_feedback_of_def
        general_feedback_of_def str_int_def str_nat.simps sample_defs)
  show "question_declared_correct quiz tf_sample = [''t'']"
    by (subst question_declared_correct_eq [OF sample_types(2)])
      (simp add: correct_values_def sample_defs)
  have "q_type tf_sample \<in> set [''true_false_question'', ''multiple_choice_question'',
                            ''multiple_answers_question'']"
    by (simp add: sample_defs)
  then show "question_offered_choices quiz tf_sample =
      [''qtimaker_choice_t'', ''qtimaker_choice_f'']"
    by (subst question_offered_choices_eq) (simp_all add: sample_defs del: set_simps)
  show no: "\<not> question_fires num quiz tf_sample (Single ''qtimaker_choice_t'')"
    by (subst question_fires_choice) (simp_all add: sample_defs)
  show "\<not> question_fires num quiz tf_sample (Single ''qtimaker_choice_f'')"
    by (subst question_fires_choice) (simp_all add: sample_defs)
  from no show "SCORE (question_outcome num quiz tf_sample (Single ''qtimaker_choice_t'') out)
      = SCORE out"
    by (subst question_score_scored [OF sample_types(2)]) simp
qed

lemma read_decimal_samples:
  "read_decimal ''10'' = 10" "read_decimal ''20'' = 20" "read_decimal ''15'' = 15"
  "read_decimal ''25'' = 25" "read_decimal ''2'' = 2" "read_decimal ''0'' = 0"
  by (simp_all add: read_decimal_def)

lemma str_int_2: "str_int 2 = ''2''"
  by (simp add: str_int_def str_nat.simps)

text \<open>
  Claim C4, as stated: a multiple-answers question awards its points only when the response
  set equals the set of correct choice identifiers. With B and D correct out of A, B, C, D,
  the response that selects all four choices is awarded the points.
\<close>

theorem extra_selections_counterexample:
  \<open>question_fires read_decimal (plain_quiz []) ma_sample
      (Multiple [''qtimaker_choice_a'', ''qtimaker_choice_b'', ''qtimaker_choice_c'',
                 ''qtimaker_choice_d''])
   \<and> SCORE (question_outcome read_decimal (plain_quiz []) ma_sample
        (Multiple [''qtimaker_choice_a'', ''qtimaker_choice_b'', ''qtimaker_choice_c'',
                   ''qtimaker_choice_d'']) no_outcomes) = 2
   \<and> set [''qtimaker_choice_a'', ''qtimaker_choice_b'', ''qtimaker_choice_c'',
           ''qtimaker_choice_d''] \<noteq> set (correct_identifiers ma_sample)\<close>
proof (intro conjI)
  have ma: "q_type ma_sample = ''multiple_answers_question''"
    by (simp add: sample_defs)
  show fires: "question_fires read_decimal (plain_quiz []) ma_sample
      (Multiple [''qtimaker_choice_a'', ''qtimaker_choice_b'', ''qtimaker_choice_c'',
                 ''qtimaker_choice_d''])"
    by (subst question_fires_multiple_answers [OF ma])
      (simp add: correct_identifiers_def sample_defs)
  have "q_points_possible ma_sample = 2"
    by (simp add: sample_defs)
  with fires show "SCORE (question_outcome read_decimal (plain_quiz []) ma_sample
        (Multiple [''qtimaker_choice_a'', ''qtimaker_choice_b'', ''qtimaker_choice_c'',
                   ''qtimaker_choice_d'']) no_outcomes) = 2"
    by (subst question_score_scored [OF sample_types(3)])
      (simp add: str_int_2 read_decimal_samples no_outcomes_def)
  have "''qtimaker_choice_a'' \<in> set [''qtimaker_choice_a'', ''qtimaker_choice_b'',
      ''qtimaker_choice_c'', ''qtimaker_choice_d'']"
    by simp
  moreover have "''qtimaker_choice_a'' \<notin> set (correct_identifiers ma_sample)"
    by (simp add: correct_identifiers_def sample_defs)
  ultimately show "set [''qtimaker_choice_a'', ''qtimaker_choice_b'', ''qtimaker_choice_c'',
           ''qtimaker_choice_d''] \<noteq> set (correct_identifiers ma_sample)"
    by metis
qed

text \<open>
  Claim C4, amended: the response condition of a multiple-answers question is the
  conjunction of one test per correct choice, on the prefixed identifier of that choice. It
  fires, and the points are added to the score, exactly when every correct choice is among
  the selected ones; no test excludes further selections. The \<^verbatim>\<open>maxChoices\<close> attribute
  of the interaction is the number of choices of the question, all of which are offered.
\<close>

theorem multiple_answers_requires_correct_choices:
  assumes "q_type q = ''multiple_answers_question''"
  shows "(question_fires num quiz q (Multiple xs) \<longleftrightarrow> set (correct_identifiers q) \<subseteq> set xs)
    \<and> SCORE (question_outcome num quiz q r out) =
        (if question_fires num quiz q r then SCORE out + num (str_int (q_points_possible q))
         else SCORE out)
    \<and> question_max_choices quiz q = [str_int (int (length (q_choices q)))]
    \<and> length (question_offered_choices quiz q) = length (q_choices q)
    \<and> response_processing q =
        Inr (RESPONSE_PROCESSING_MULTANS
               (join ''\<newline>'' (map MATCH_CONDITION (correct_identifiers q)))
               (str_int (q_points_possible q)) (correct_feedback_of q)
               (incorrect_feedback_of q) (general_feedback_of q))"
proof (intro conjI)
  from assms have scored: "q_type q \<in> set scored_types"
    by (simp add: scored_types_def)
  show "question_fires num quiz q (Multiple xs) \<longleftrightarrow> set (correct_identifiers q) \<subseteq> set xs"
    by (auto simp: question_fires_multiple_answers [OF assms] list_all_iff)
  show "SCORE (question_outcome num quiz q r out) =
        (if question_fires num quiz q r then SCORE out + num (str_int (q_points_possible q))
         else SCORE out)"
    by (rule question_score_scored [OF scored])
  show "question_max_choices quiz q = [str_int (int (length (q_choices q)))]"
    by (rule question_max_choices_eq [OF assms])
  from assms show "length (question_offered_choices quiz q) = length (q_choices q)"
    by (subst question_offered_choices_eq) simp_all
  from assms show "response_processing q =
        Inr (RESPONSE_PROCESSING_MULTANS
               (join ''\<newline>'' (map MATCH_CONDITION (correct_identifiers q)))
               (str_int (q_points_possible q)) (correct_feedback_of q)
               (incorrect_feedback_of q) (general_feedback_of q))"
    by (simp add: response_processing_def correct_identifiers_def comp_def)
qed

theorem multiple_answers_requires_correct_choices_witness:
  \<open>q_type ma_sample = ''multiple_answers_question''
   \<and> question_fires read_decimal (plain_quiz []) ma_sample
       (Multiple [''qtimaker_choice_b'', ''qtimaker_choice_d''])
   \<and> \<not> question_fires read_decimal (plain_quiz []) ma_sample (Multiple [''qtimaker_choice_b''])
   \<and> question_max_choices (plain_quiz []) ma_sample = [''4'']\<close>
proof -
  have ma: "q_type ma_sample = ''multiple_answers_question''"
    by (simp add: sample_defs)
  have ids: "correct_identifiers ma_sample = [''qtimaker_choice_b'', ''qtimaker_choice_d'']"
    by (simp add: correct_identifiers_def sample_defs)
  have four: "str_int (int (length (q_choices ma_sample))) = ''4''"
    by (simp add: sample_defs str_int_def str_nat.simps)
  from multiple_answers_requires_correct_choices
         [OF ma, of read_decimal "plain_quiz []" "[''qtimaker_choice_b'', ''qtimaker_choice_d'']"]
       multiple_answers_requires_correct_choices
         [OF ma, of read_decimal "plain_quiz []" "[''qtimaker_choice_b'']"]
  show ?thesis
    by (simp add: ma ids four)
qed

text \<open>
  Claim C5, as stated: for every question with both an incorrect-feedback and a
  general-feedback string set, each of the two is emitted as an else-branch of the same
  response condition. For an essay question with both set, the condition has one else-branch,
  that of the general feedback.
\<close>

theorem essay_feedback_counterexample:
  \<open>q_incorrect_feedback_raw essay_sample \<noteq> None
   \<and> q_feedback_raw essay_sample \<noteq> None
   \<and> question_else_branches (plain_quiz []) essay_sample = [else_tree ''See chapter 2'']
   \<and> question_else_branches (plain_quiz []) essay_sample \<noteq>
       [else_tree (q_incorrect_feedback_html_xml essay_sample),
        else_tree (q_feedback_html_xml essay_sample)]\<close>
proof -
  have "question_else_branches (plain_quiz []) essay_sample = [else_tree ''See chapter 2'']"
    by (subst question_else_branches_unscored [OF sample_types(5)])
      (simp add: general_feedback_trees_def sample_defs)
  then show ?thesis
    by (simp add: sample_defs)
qed

text \<open>
  Claim C5, amended: for every question of a scored type (true/false, multiple choice,
  multiple answers, short answer, numerical) with both strings set, the response condition
  has exactly two else-branches of identical structure, each assigning its string to the
  outcome \<^verbatim>\<open>FEEDBACK\<close>: first the incorrect feedback, then the general feedback, written
  by templates that are the same function. After a response that does not fire the
  condition, \<^verbatim>\<open>FEEDBACK\<close> holds one of the two strings, the general one.
\<close>

theorem feedback_shares_else_branch:
  assumes "q_type q \<in> set scored_types"
    and "q_incorrect_feedback_raw q \<noteq> None"
    and "q_feedback_raw q \<noteq> None"
  shows "question_else_branches quiz q =
           [else_tree (q_incorrect_feedback_html_xml q), else_tree (q_feedback_html_xml q)]
    \<and> incorrect_feedback_of q = FEEDBACK_INCORRECT (q_incorrect_feedback_html_xml q)
    \<and> general_feedback_of q = FEEDBACK_GENERAL (q_feedback_html_xml q)
    \<and> FEEDBACK_INCORRECT = FEEDBACK_GENERAL
    \<and> (\<not> question_fires num quiz q r \<longrightarrow>
         FEEDBACK (question_outcome num quiz q r out) = Some (q_feedback_html_xml q))"
proof (intro conjI impI)
  from assms(2,3) show "question_else_branches quiz q =
      [else_tree (q_incorrect_feedback_html_xml q), else_tree (q_feedback_html_xml q)]"
    by (simp add: question_else_branches_scored [OF assms(1)] incorrect_feedback_trees_def
        general_feedback_trees_def)
  from assms(2) show "incorrect_feedback_of q = FEEDBACK_INCORRECT (q_incorrect_feedback_html_xml q)"
    by (simp add: incorrect_feedback_of_def)
  from assms(3) show "general_feedback_of q = FEEDBACK_GENERAL (q_feedback_html_xml q)"
    by (simp add: general_feedback_of_def)
  show "FEEDBACK_INCORRECT = FEEDBACK_GENERAL"
    by (rule ext) (simp add: FEEDBACK_INCORRECT_def FEEDBACK_GENERAL_def)
  assume "\<not> question_fires num quiz q r"
  with assms(3) show "FEEDBACK (question_outcome num quiz q r out) = Some (q_feedback_html_xml q)"
    by (simp add: question_outcome_scored [OF assms(1)] fold_else_feedback del: fold_append)
qed

theorem feedback_shares_else_branch_witness:
  \<open>q_type (with_feedback mc_sample) \<in> set scored_types
   \<and> q_incorrect_feedback_raw (with_feedback mc_sample) \<noteq> None
   \<and> q_feedback_raw (with_feedback mc_sample) \<noteq> None
   \<and> question_else_branches (plain_quiz []) (with_feedback mc_sample) =
       [else_tree ''Try again'', else_tree ''See chapter 2'']
   \<and> FEEDBACK (question_outcome read_decimal (plain_quiz []) (with_feedback mc_sample)
        (Single ''qtimaker_choice_b'') no_outcomes) = Some ''See chapter 2''\<close>
proof -
  have scored: "q_type (with_feedback mc_sample) \<in> set scored_types"
    by (simp add: sample_defs scored_types_def)
  have incorrect: "q_incorrect_feedback_raw (with_feedback mc_sample) \<noteq> None"
    by (simp add: sample_defs)
  have general: "q_feedback_raw (with_feedback mc_sample) \<noteq> None"
    by (simp add: sample_defs)
  have wrong: "\<not> question_fires read_decimal (plain_quiz []) (with_feedback mc_sample)
      (Single ''qtimaker_choice_b'')"
    by (subst question_fires_choice) (simp_all add: sample_defs)
  have strings: "q_incorrect_feedback_html_xml (with_feedback mc_sample) = ''Try again''"
    "q_feedback_html_xml (with_feedback mc_sample) = ''See chapter 2''"
    by (simp_all add: sample_defs)
  from feedback_shares_else_branch [OF scored incorrect general,
      of "plain_quiz []" read_decimal "Single ''qtimaker_choice_b''" no_outcomes]
  show ?thesis
    using scored incorrect general wrong by (simp add: strings)
qed

text \<open>
  Claim C6: the item generated for a text region contains no response declaration, its
  response processing never modifies the score, and the entry contributes nothing to the
  maximum score. The text appended for the region is, up to blanks, the serialisation of
  a tree without any \<^verbatim>\<open>responseDeclaration\<close> or \<^verbatim>\<open>setOutcomeValue\<close> element; its
  response processing is an empty response condition and leaves the outcomes of every response
  as they were; and the first loop passes over the entry.
\<close>

theorem text_region_unscored:
  "emit_entry quiz (TextRegion region) = Inr (text_region_item region)
   \<and> squeeze (concat (text_region_item region)) = squeeze (render (text_region_tree region))
   \<and> ''responseDeclaration'' \<notin> set (elem_names (text_region_tree region))
   \<and> ''setOutcomeValue'' \<notin> set (elem_names (text_region_tree region))
   \<and> declared_correct (text_region_tree region) = []
   \<and> process_response num (text_region_tree region) r out = out
   \<and> total_points (xs @ TextRegion region # ys) n = total_points (xs @ ys) n"
proof (intro conjI)
  show "emit_entry quiz (TextRegion region) = Inr (text_region_item region)"
    by simp
  show "squeeze (concat (text_region_item region)) = squeeze (render (text_region_tree region))"
    by (rule text_region_text_tree)
  show "''responseDeclaration'' \<notin> set (elem_names (text_region_tree region))"
    by (simp add: text_region_tree_def score_declaration_tree_def)
  show "''setOutcomeValue'' \<notin> set (elem_names (text_region_tree region))"
    by (simp add: text_region_tree_def score_declaration_tree_def)
  show "declared_correct (text_region_tree region) = []"
    by (simp add: declared_correct_def child_elems_def text_region_tree_def
        score_declaration_tree_def)
  show "process_response num (text_region_tree region) r out = out"
    by (simp add: process_response_def child_elems_def text_region_tree_def
        score_declaration_tree_def)
  show "total_points (xs @ TextRegion region # ys) n = total_points (xs @ ys) n"
    by (rule total_points_text_region)
qed

text \<open>
  Claim C7: the response condition of a numerical question awards the points exactly when
  the response lies between the bounds, both included, and awards nothing otherwise. The
  generator instantiates the numerical template with the question's lower and upper bound
  (for a question given by an exact value these are the bounds the quiz model derived from
  it). The condition fires for a single response \<open>x\<close> exactly when
  \<open>min \<le> x\<close> and \<open>x \<le> max\<close>, never for an absent response; the score grows by the
  points when it fires and is unchanged when it does not.
\<close>

theorem numerical_within_bounds:
  assumes "q_type q = ''numerical_question''"
  shows "response_processing q =
           Inr (RESPONSE_PROCESSING_NUM (q_numerical_min_html_xml q) (q_numerical_max_html_xml q)
                  (str_int (q_points_possible q)) (correct_feedback_of q)
                  (incorrect_feedback_of q) (general_feedback_of q))
    \<and> (question_fires num quiz q (Single x) \<longleftrightarrow>
         num (q_numerical_min_html_xml q) \<le> num x \<and> num x \<le> num (q_numerical_max_html_xml q))
    \<and> \<not> question_fires num quiz q Null
    \<and> \<not> question_fires num quiz q (Multiple xs)
    \<and> SCORE (question_outcome num quiz q r out) =
        (if question_fires num quiz q r then SCORE out + num (str_int (q_points_possible q))
         else SCORE out)"
proof (intro conjI)
  from assms have scored: "q_type q \<in> set scored_types"
    by (simp add: scored_types_def)
  from assms show "response_processing q =
           Inr (RESPONSE_PROCESSING_NUM (q_numerical_min_html_xml q) (q_numerical_max_html_xml q)
                  (str_int (q_points_possible q)) (correct_feedback_of q)
                  (incorrect_feedback_of q) (general_feedback_of q))"
    by (simp add: response_processing_def)
  show "question_fires num quiz q (Single x) \<longleftrightarrow>
         num (q_numerical_min_html_xml q) \<le> num x \<and> num x \<le> num (q_numerical_max_html_xml q)"
    by (simp add: question_fires_numerical [OF assms])
  show "\<not> question_fires num quiz q Null"
    by (simp add: question_fires_numerical [OF assms])
  show "\<not> question_fires num quiz q (Multiple xs)"
    by (simp add: question_fires_numerical [OF assms])
  show "SCORE (question_outcome num quiz q r out) =
        (if question_fires num quiz q r then SCORE out + num (str_int (q_points_possible q))
         else SCORE out)"
    by (rule question_score_scored [OF scored])
qed

theorem numerical_within_bounds_witness:
  \<open>q_type numerical_sample = ''numerical_question''
   \<and> question_fires read_decimal (plain_quiz []) numerical_sample (Single ''15'')
   \<and> \<not> question_fires read_decimal (plain_quiz []) numerical_sample (Single ''25'')
   \<and> SCORE (question_outcome read_decimal (plain_quiz []) numerical_sample (Single ''15'')
        no_outcomes) = 2
   \<and> SCORE (question_outcome read_decimal (plain_quiz []) numerical_sample (Single ''25'')
        no_outcomes) = 0\<close>
proof -
  have numerical: "q_type numerical_sample = ''numerical_question''"
    by (simp add: sample_defs)
  have fields: "q_numerical_min_html_xml numerical_sample = ''10''"
    "q_numerical_max_html_xml numerical_sample = ''20''"
    "q_points_possible numerical_sample = 2"
    by (simp_all add: sample_defs)
  from numerical_within_bounds
         [OF numerical, of read_decimal "plain_quiz []" "''15''" "[]" "Single ''15''" no_outcomes]
       numerical_within_bounds
         [OF numerical, of read_decimal "plain_quiz []" "''25''" "[]" "Single ''25''" no_outcomes]
  show ?thesis
    by (simp add: numerical fields read_decimal_samples str_int_2 no_outcomes_def)
qed

text \<open>
  Claim C8: a question whose type has no encoding makes the generator fail; there is no
  fallback encoding. The exception of the code is Python's \<^verbatim>\<open>ValueError\<close>, raised where
  the item body is chosen. The pass over such a question raises it, so the call returns no
  document at all; the exception that ends the call is this one unless the list also holds an
  object that is no quiz entry, for which the loop raises \<^verbatim>\<open>TypeError\<close>.
\<close>

theorem unknown_type_is_fatal:
  assumes "Question q \<in> set (questions_and_delims quiz)"
    and "q_type q \<notin> set encoded_types"
  shows "question_item quiz q = Inl ValueError
    \<and> (\<exists>e. assessment_v2 quiz assessment_identifier title_xml = Inl e)
    \<and> (Other \<notin> set (questions_and_delims quiz) \<longrightarrow>
         assessment_v2 quiz assessment_identifier title_xml = Inl ValueError)"
proof (intro conjI impI)
  from assms(2) show item: "question_item quiz q = Inl ValueError"
    by (rule question_item_unknown_type)
  have "isl (emit_all quiz (questions_and_delims quiz) [])"
  proof (rule ccontr)
    assume "\<not> isl (emit_all quiz (questions_and_delims quiz) [])"
    then obtain items where "emit_all quiz (questions_and_delims quiz) [] = Inr items"
      by (cases "emit_all quiz (questions_and_delims quiz) []") simp_all
    then have "list_all (\<lambda>x. \<not> isl (emit_entry quiz x)) (questions_and_delims quiz)"
      by (rule emit_all_Inr)
    with assms(1) have "\<not> isl (emit_entry quiz (Question q))"
      unfolding list_all_iff by blast
    with item show False by simp
  qed
  then obtain e where e: "emit_all quiz (questions_and_delims quiz) [] = Inl e"
    by (cases "emit_all quiz (questions_and_delims quiz) []") simp_all
  then have result: "assessment_v2 quiz assessment_identifier title_xml = Inl e"
    by (simp add: assessment_v2_layout)
  then show "\<exists>e. assessment_v2 quiz assessment_identifier title_xml = Inl e"
    by blast
  assume entries: "Other \<notin> set (questions_and_delims quiz)"
  from e obtain x where "x \<in> set (questions_and_delims quiz)" and "emit_entry quiz x = Inl e"
    by (blast dest: emit_all_Inl)
  with entries have "e = ValueError"
    by (auto dest: emit_entry_error)
  with result show "assessment_v2 quiz assessment_identifier title_xml = Inl ValueError"
    by simp
qed

theorem unknown_type_is_fatal_witness:
  \<open>Question matching_sample
     \<in> set (questions_and_delims (plain_quiz [Question mc_sample, Question matching_sample]))
   \<and> q_type matching_sample \<notin> set encoded_types
   \<and> assessment_v2 (plain_quiz [Question mc_sample, Question matching_sample]) ''quiz'' ''Quiz''
       = Inl ValueError\<close>
proof -
  have entry: "Question matching_sample
     \<in> set (questions_and_delims (plain_quiz [Question mc_sample, Question matching_sample]))"
    by (simp add: plain_quiz_def)
  have entries: "Other
     \<notin> set (questions_and_delims (plain_quiz [Question mc_sample, Question matching_sample]))"
    by (simp add: plain_quiz_def)
  from unknown_type_is_fatal [OF entry sample_types(6), of "''quiz''" "''Quiz''"] entries
  show ?thesis
    using entry sample_types(6) by blast
qed



text \<open>
  Claim C10: for an essay or file-upload question the correct and the incorrect feedback never
  reach the generated item, only the general feedback does, and the response processing
  only sets the score to zero when the response is absent. The strings appended for the
  question do not depend on the four correct and incorrect feedback attributes; the
  response processing is the essay template over the general feedback alone, whose
  else-branches are those of the general feedback; the condition fires for the absent
  response only; and the score after a response is the numeral \<^verbatim>\<open>0\<close> for the absent
  response and the score before for every other.
\<close>

theorem essay_upload_general_feedback_only:
  assumes "q_type q \<in> set unscored_types"
  shows "question_item quiz
           (q\<lparr>q_correct_feedback_raw := cr, q_correct_feedback_html_xml := cx,
              q_incorrect_feedback_raw := ir, q_incorrect_feedback_html_xml := ix\<rparr>)
         = question_item quiz q
    \<and> response_processing q = Inr (RESPONSE_PROCESSING_ESSAY (general_feedback_of q))
    \<and> question_else_branches quiz q = general_feedback_trees q
    \<and> (question_fires num quiz q r \<longleftrightarrow> r = Null)
    \<and> SCORE (question_outcome num quiz q r out) = (if r = Null then num ''0'' else SCORE out)"
proof (intro conjI)
  from assms have type: "q_type q = ''essay_question'' \<or> q_type q = ''file_upload_question''"
    by (simp add: unscored_types_def)
  then show "question_item quiz
           (q\<lparr>q_correct_feedback_raw := cr, q_correct_feedback_html_xml := cx,
              q_incorrect_feedback_raw := ir, q_incorrect_feedback_html_xml := ix\<rparr>)
         = question_item quiz q"
    by (auto simp: question_item_def response_declaration_def item_body_def
        response_processing_def general_feedback_of_def Let_def)
  from type show "response_processing q = Inr (RESPONSE_PROCESSING_ESSAY (general_feedback_of q))"
    by (auto simp: response_processing_def RESPONSE_PROCESSING_UPLOAD_def)
  show "question_else_branches quiz q = general_feedback_trees q"
    by (rule question_else_branches_unscored [OF assms])
  show "question_fires num quiz q r \<longleftrightarrow> r = Null"
    by (rule question_fires_unscored [OF assms])
  show "SCORE (question_outcome num quiz q r out) = (if r = Null then num ''0'' else SCORE out)"
    by (simp add: question_outcome_unscored [OF assms] fold_general_score)
qed

theorem essay_upload_general_feedback_only_witness:
  \<open>q_type essay_sample \<in> set unscored_types
   \<and> question_item (plain_quiz [])
       (essay_sample\<lparr>q_correct_feedback_raw := None, q_correct_feedback_html_xml := ''None'',
                     q_incorrect_feedback_raw := None,
                     q_incorrect_feedback_html_xml := ''None''\<rparr>)
     = question_item (plain_quiz []) essay_sample
   \<and> question_else_branches (plain_quiz []) essay_sample = [else_tree ''See chapter 2'']
   \<and> SCORE (question_outcome read_decimal (plain_quiz []) essay_sample Null
        \<lparr>SCORE = 5, FEEDBACK = None\<rparr>) = 0
   \<and> SCORE (question_outcome read_decimal (plain_quiz []) essay_sample (Single ''An essay'')
        \<lparr>SCORE = 5, FEEDBACK = None\<rparr>) = 5\<close>
proof -
  have general: "general_feedback_trees essay_sample = [else_tree ''See chapter 2'']"
    by (simp add: general_feedback_trees_def sample_defs)
  from essay_upload_general_feedback_only
         [OF sample_types(5), where quiz = "plain_quiz []" and cr = None and cx = "''None''"
            and ir = None and ix = "''None''" and num = read_decimal and r = Null
            and out = "\<lparr>SCORE = 5, FEEDBACK = None\<rparr>"]
       essay_upload_general_feedback_only
         [OF sample_types(5), where quiz = "plain_quiz []" and cr = None and cx = "''None''"
            and ir = None and ix = "''None''" and num = read_decimal
            and r = "Single ''An essay''" and out = "\<lparr>SCORE = 5, FEEDBACK = None\<rparr>"]
  show ?thesis
    by (simp add: sample_types(5) general read_decimal_samples)
qed

end
